theory Spec2Isabelle
  imports Complex_Main "HOL-Library.AList" "HOL-Library.Sublist" "HOL-Library.Log_Nat"
begin

section \<open>JavaScript values\<close>

text \<open>
  A JavaScript number is a finite double, NaN or one of the two infinities.  A finite
  double is the rational it denotes.  \<open>Math.round\<close>, \<open>Math.min\<close> and \<open>Math.max\<close> are exact on
  doubles.  A product, a sum or a quotient of doubles is the exact result rounded to the
  nearest double, a tie to the even significand (\<open>dmul\<close>, \<open>dadd\<close>, \<open>ddiv\<close> below).  Sums and
  products of counts and of scores between 0 and 100 are integers far below \<open>2^53\<close>, where
  the rounding changes nothing, and are written with the exact \<open>+\<close> and \<open>*\<close>.
\<close>

datatype jsnum = Fin rat | NaN | PosInf | NegInf

text \<open>
  A value as \<open>JSON.parse\<close> and property access produce it.  An object is the list of its
  own properties in insertion order; a property is looked up by the first entry of its
  key.  \<open>JUndefined\<close> is what reading a missing property gives.
\<close>

datatype jsval =
    JUndefined
  | JNull
  | JBool bool
  | JNum jsnum
  | JStr string
  | JArr "jsval list"
  | JObj "(string \<times> jsval) list"

datatype js_error = TypeError | SyntaxError

text \<open>
  The built-in functions of the language that the program calls and that are not part of
  the repository are parameters of the model: the conversion of a string to a number, of
  a number to a string, and \<open>JSON.parse\<close> (\<open>None\<close> when it throws a SyntaxError).
\<close>

record builtins =
  StringToNumber :: "string \<Rightarrow> jsnum"
  NumberToString :: "jsnum \<Rightarrow> string"
  JSON_parse :: "string \<Rightarrow> jsval option"

definition then_do :: "'e + 'a \<Rightarrow> ('a \<Rightarrow> 'e + 'b) \<Rightarrow> 'e + 'b" where
  "then_do r f = (case r of Inl e \<Rightarrow> Inl e | Inr x \<Rightarrow> f x)"

text \<open>
  \<open>v?.k\<close>: the own property \<open>k\<close> of an object, \<open>undefined\<close> on every other value.  The
  program reads only property names that neither a primitive nor an array has.
\<close>

definition get_opt :: "jsval \<Rightarrow> string \<Rightarrow> jsval" where
  "get_opt v k =
     (case v of
        JObj kvs \<Rightarrow> (case map_of kvs k of Some x \<Rightarrow> x | None \<Rightarrow> JUndefined)
      | _ \<Rightarrow> JUndefined)"

text \<open>\<open>v.k\<close>: as \<open>v?.k\<close>, but a TypeError on \<open>null\<close> and \<open>undefined\<close>.\<close>

definition get_prop :: "jsval \<Rightarrow> string \<Rightarrow> js_error + jsval" where
  "get_prop v k =
     (case v of
        JUndefined \<Rightarrow> Inl TypeError
      | JNull \<Rightarrow> Inl TypeError
      | _ \<Rightarrow> Inr (get_opt v k))"

text \<open>
  \<open>v.k = x\<close> in strict mode (the routes are ES modules): an object gets the property, in
  place when it has the key and at the end otherwise; a primitive, \<open>null\<close> and \<open>undefined\<close>
  raise a TypeError.  An array takes the named property, which is not an element: it is
  never read back and \<open>JSON.stringify\<close> leaves it out, so the array is returned as it is.
\<close>

definition set_prop :: "jsval \<Rightarrow> string \<Rightarrow> jsval \<Rightarrow> js_error + jsval" where
  "set_prop v k x =
     (case v of
        JObj kvs \<Rightarrow> Inr (JObj (AList.update k x kvs))
      | JArr xs \<Rightarrow> Inr (JArr xs)
      | _ \<Rightarrow> Inl TypeError)"

definition isArray :: "jsval \<Rightarrow> bool" where
  "isArray v = (case v of JArr _ \<Rightarrow> True | _ \<Rightarrow> False)"

definition elements :: "jsval \<Rightarrow> jsval list" where
  "elements v = (case v of JArr xs \<Rightarrow> xs | _ \<Rightarrow> [])"

definition isString :: "jsval \<Rightarrow> bool" where
  "isString v = (case v of JStr _ \<Rightarrow> True | _ \<Rightarrow> False)"

text \<open>\<open>typeof v === "object"\<close>, which holds of \<open>null\<close> too.\<close>

definition typeof_object :: "jsval \<Rightarrow> bool" where
  "typeof_object v = (case v of JNull \<Rightarrow> True | JArr _ \<Rightarrow> True | JObj _ \<Rightarrow> True | _ \<Rightarrow> False)"

definition truthy :: "jsval \<Rightarrow> bool" where
  "truthy v =
     (case v of
        JUndefined \<Rightarrow> False
      | JNull \<Rightarrow> False
      | JBool b \<Rightarrow> b
      | JNum n \<Rightarrow> n \<noteq> Fin 0 \<and> n \<noteq> NaN
      | JStr s \<Rightarrow> s \<noteq> []
      | _ \<Rightarrow> True)"

text \<open>
  \<open>ToString\<close>.  An object from \<open>JSON.parse\<close> has no callable property of its own, so an own
  \<open>toString\<close> hides \<open>Object.prototype.toString\<close> and the conversion to a primitive finds
  no method that returns one: a TypeError.  An array is joined with commas, \<open>null\<close> and
  \<open>undefined\<close> elements as the empty string.
\<close>

fun ToString :: "builtins \<Rightarrow> jsval \<Rightarrow> js_error + string"
  and join :: "builtins \<Rightarrow> jsval list \<Rightarrow> js_error + string" where
  "ToString B JUndefined = Inr ''undefined''"
| "ToString B JNull = Inr ''null''"
| "ToString B (JBool b) = Inr (if b then ''true'' else ''false'')"
| "ToString B (JNum n) = Inr (NumberToString B n)"
| "ToString B (JStr s) = Inr s"
| "ToString B (JArr xs) = join B xs"
| "ToString B (JObj kvs) =
     (if ''toString'' \<in> fst ` set kvs then Inl TypeError else Inr ''[object Object]'')"
| "join B [] = Inr []"
| "join B (x # xs) =
     then_do (if x = JUndefined \<or> x = JNull then Inr [] else ToString B x) (\<lambda>s.
       if xs = [] then Inr s else then_do (join B xs) (\<lambda>r. Inr (s @ '','' @ r)))"

text \<open>\<open>Number(v)\<close>: an object or an array is first converted to a string.\<close>

definition js_Number :: "builtins \<Rightarrow> jsval \<Rightarrow> js_error + jsnum" where
  "js_Number B v =
     (case v of
        JUndefined \<Rightarrow> Inr NaN
      | JNull \<Rightarrow> Inr (Fin 0)
      | JBool b \<Rightarrow> Inr (Fin (if b then 1 else 0))
      | JNum n \<Rightarrow> Inr n
      | JStr s \<Rightarrow> Inr (StringToNumber B s)
      | _ \<Rightarrow> then_do (ToString B v) (\<lambda>s. Inr (StringToNumber B s)))"

definition isFinite :: "jsnum \<Rightarrow> bool" where
  "isFinite n = (case n of Fin _ \<Rightarrow> True | _ \<Rightarrow> False)"

text \<open>\<open>Math.round\<close>: the nearest integer, a tie towards plus infinity.\<close>

definition Math_round :: "rat \<Rightarrow> rat" where
  "Math_round x = of_int \<lfloor>x + 1 / 2\<rfloor>"

definition clamp :: "rat \<Rightarrow> rat \<Rightarrow> rat \<Rightarrow> rat" where
  "clamp n lo hi = min hi (max lo n)"

subsection \<open>Arithmetic of doubles\<close>

text \<open>\<open>pow2 e\<close> is \<open>2^e\<close> for an integer exponent.\<close>

definition pow2 :: "int \<Rightarrow> rat" where
  "pow2 e = (if 0 \<le> e then 2 ^ nat e else 1 / 2 ^ nat (- e))"

text \<open>
  The binary exponent of a rational that is not zero: the \<open>e\<close> with \<open>2^e \<le> |q| < 2^(e+1)\<close>.
  With \<open>|q| = a / b\<close> and \<open>d\<close> the difference of the bit lengths of \<open>a\<close> and \<open>b\<close> it is \<open>d\<close> or
  \<open>d - 1\<close>.
\<close>

definition binade :: "rat \<Rightarrow> int" where
  "binade q =
     (let (a, b) = quotient_of \<bar>q\<bar>; d = bitlen a - bitlen b
      in if pow2 d \<le> \<bar>q\<bar> then d else d - 1)"

definition round_half_even :: "rat \<Rightarrow> int" where
  "round_half_even x =
     (let f = \<lfloor>x\<rfloor>; r = x - of_int f
      in if r < 1 / 2 then f else if 1 / 2 < r then f + 1 else if even f then f else f + 1)"

text \<open>
  The double nearest to a rational (binary64: 53 bits of significand, the smallest spacing
  \<open>2^-1074\<close>).  The numbers rounded here are at most some hundreds, so the overflow to
  infinity is left out.
\<close>

definition fl :: "rat \<Rightarrow> rat" where
  "fl q =
     (if q = 0 then 0
      else let ulp = pow2 (max (binade q - 52) (- 1074))
           in of_int (round_half_even (q / ulp)) * ulp)"

definition dmul :: "rat \<Rightarrow> rat \<Rightarrow> rat" where
  "dmul x y = fl (x * y)"

definition dadd :: "rat \<Rightarrow> rat \<Rightarrow> rat" where
  "dadd x y = fl (x + y)"

definition ddiv :: "rat \<Rightarrow> rat \<Rightarrow> rat" where
  "ddiv x y = fl (x / y)"

section \<open>Strings\<close>

text \<open>
  A string is the list of its code units, here the code units below 256; the delimiters,
  the fence markers and the keywords the program looks for are ASCII.
\<close>

primrec indexOf :: "string \<Rightarrow> string \<Rightarrow> nat option" where
  "indexOf [] pat = (if pat = [] then Some 0 else None)"
| "indexOf (c # cs) pat =
     (if prefix pat (c # cs) then Some 0 else map_option Suc (indexOf cs pat))"

text \<open>\<open>s.slice(a, b)\<close> for indices that are not negative.\<close>

definition slice :: "string \<Rightarrow> nat \<Rightarrow> nat \<Rightarrow> string" where
  "slice s a b = take (b - a) (drop a s)"

definition is_space :: "char \<Rightarrow> bool" where
  "is_space c = (c \<in> {CHR 0x09, CHR 0x0A, CHR 0x0B, CHR 0x0C, CHR 0x0D, CHR '' '', CHR 0xA0})"

definition trim :: "string \<Rightarrow> string" where
  "trim s = rev (dropWhile is_space (rev (dropWhile is_space s)))"

definition lastIndexOf :: "string \<Rightarrow> string \<Rightarrow> nat option" where
  "lastIndexOf s pat =
     (case filter (\<lambda>i. prefix pat (drop i s)) (rev [0..<Suc (length s)]) of
        [] \<Rightarrow> None
      | i # _ \<Rightarrow> Some i)"

definition js_includes :: "string \<Rightarrow> string \<Rightarrow> bool" where
  "js_includes s pat = (indexOf s pat \<noteq> None)"

text \<open>
  \<open>toLowerCase\<close> on the letters A to Z.  Every other code unit is mapped to code units
  that are not ASCII letters, so the keyword and fence tests below do not see them.
\<close>

definition toLowerCase_char :: "char \<Rightarrow> char" where
  "toLowerCase_char c =
     (if 65 \<le> (of_char c :: nat) \<and> (of_char c :: nat) \<le> 90
      then char_of (of_char c + 32 :: nat) else c)"

definition toLowerCase :: "string \<Rightarrow> string" where
  "toLowerCase s = map toLowerCase_char s"

text \<open>
  \<open>s.replace(/pat/g, "")\<close> for a literal pattern: one pass from the left, the matches
  removed, the text after a match scanned on.  The first argument is the identity, or
  \<open>toLowerCase_char\<close> for the flag \<open>i\<close> with a pattern in lower case.
\<close>

function remove_all :: "(char \<Rightarrow> char) \<Rightarrow> string \<Rightarrow> string \<Rightarrow> string" where
  "remove_all f pat [] = []"
| "remove_all f pat (c # cs) =
     (if pat \<noteq> [] \<and> prefix pat (map f (c # cs))
      then remove_all f pat (drop (length pat) (c # cs))
      else c # remove_all f pat cs)"
  by pat_completeness auto
termination
  by (relation "measure (\<lambda>(f, pat, s). length s)") (auto simp: neq_Nil_conv)

section \<open>The streaming route (app/api/analyze/stream/route.ts)\<close>

subsection \<open>Hybrid scoring of the parsed payload\<close>

definition safeInt :: "builtins \<Rightarrow> jsval \<Rightarrow> js_error + rat" where
  "safeInt B v =
     then_do (js_Number B v) (\<lambda>n.
       Inr (case n of Fin q \<Rightarrow> clamp (Math_round q) 0 100 | _ \<Rightarrow> 0))"

definition safeProb :: "builtins \<Rightarrow> jsval \<Rightarrow> js_error + rat" where
  "safeProb B v =
     then_do (js_Number B v) (\<lambda>n.
       Inr (case n of Fin q \<Rightarrow> clamp q 0 1 | _ \<Rightarrow> 0))"

text \<open>The loop body of \<open>calculateSeverityFromServices\<close>: \<open>s?.status\<close> of any value.\<close>

definition status_points :: "jsval \<Rightarrow> rat" where
  "status_points s =
     (if get_opt s ''status'' = JStr ''down'' then 35 else 0) +
     (if get_opt s ''status'' = JStr ''degraded'' then 15 else 0)"

definition calculateSeverityFromServices_stream :: "jsval list \<Rightarrow> rat" where
  "calculateSeverityFromServices_stream svcs =
     clamp (foldl (\<lambda>score s. score + status_points s) 0 svcs) 0 100"

definition calculateBlastRadius_stream :: "jsval list \<Rightarrow> rat" where
  "calculateBlastRadius_stream svcs =
     (let total = length svcs in
      if total = 0 then 0
      else
        let down = length (filter (\<lambda>s. get_opt s ''status'' = JStr ''down'') svcs);
            degraded = length (filter (\<lambda>s. get_opt s ''status'' = JStr ''degraded'') svcs)
        in clamp (Math_round
                    (dmul (ddiv (dadd (of_nat down) (dmul (of_nat degraded) (1 / 2)))
                                (of_nat total)) 100))
             0 100)"

definition calculateImpactFromPropagation_stream :: "jsval \<Rightarrow> rat" where
  "calculateImpactFromPropagation_stream prop =
     (let nodeCount = (if isArray (get_opt prop ''nodes'')
                       then length (elements (get_opt prop ''nodes'')) else 0);
          edgeCount = (if isArray (get_opt prop ''edges'')
                       then length (elements (get_opt prop ''edges'')) else 0)
      in clamp (of_nat nodeCount * 5 + of_nat edgeCount * 8) 0 100)"

text \<open>
  The body of the inner \<open>try\<close> after \<open>JSON.parse\<close>: the value handed to \<open>send("final", _)\<close>,
  or the exception that takes the \<open>catch\<close>.
\<close>

definition hybrid_scoring :: "builtins \<Rightarrow> jsval \<Rightarrow> js_error + jsval" where
  "hybrid_scoring B parsed =
     then_do (get_prop parsed ''services'') (\<lambda>sv.
     let services = (if isArray sv then elements sv else []) in
     then_do (get_prop parsed ''propagation'') (\<lambda>pv.
     let propagation = (if truthy pv \<and> typeof_object pv then pv
                        else JObj [(''nodes'', JArr []), (''edges'', JArr [])]) in
     then_do (then_do (get_prop parsed ''severity_score'') (safeInt B)) (\<lambda>aiSeverity.
     then_do (then_do (get_prop parsed ''business_impact_score'') (safeInt B)) (\<lambda>aiImpact.
     let deterministicSeverity = calculateSeverityFromServices_stream services;
         deterministicImpact = calculateImpactFromPropagation_stream propagation;
         blastRadiusScore = calculateBlastRadius_stream services
     in
     then_do (set_prop parsed ''severity_score''
                (JNum (Fin (clamp (max aiSeverity deterministicSeverity) 0 100)))) (\<lambda>p1.
     then_do (set_prop p1 ''business_impact_score''
                (JNum (Fin (clamp (Math_round
                   (dadd (dadd (dmul aiImpact (1 / 2))
                               (dmul deterministicImpact (fl (3 / 10))))
                         (dmul blastRadiusScore (fl (1 / 5))))) 0 100)))) (\<lambda>p2.
     then_do (then_do (get_prop p2 ''confidence'') (safeProb B)) (\<lambda>c.
     set_prop p2 ''confidence'' (JNum (Fin c)))))))))"

subsection \<open>The incremental parser\<close>

datatype event = Token string | Final jsval | Error string

text \<open>What the upstream iterator yields: a fragment, or an exception with its message.\<close>

datatype upstream = Chunk string | Throw "string option"

record stream_state =
  fullText :: string
  finalSent :: bool
  jsonStarted :: bool
  lastNarrationSentIndex :: nat

definition initial_state :: stream_state where
  "initial_state =
     \<lparr>fullText = [], finalSent = False, jsonStarted = False, lastNarrationSentIndex = 0\<rparr>"

text \<open>Step 1 of the loop body: detection of the opening delimiter.\<close>

definition narration_step :: "stream_state \<Rightarrow> string \<Rightarrow> event list \<times> stream_state" where
  "narration_step st text =
     (if \<not> finalSent st \<and> \<not> jsonStarted st then
        (case indexOf (fullText st) ''<FINAL_JSON>'' of
           None \<Rightarrow> ([Token text], st)
         | Some startIndex \<Rightarrow>
             (let narrationPart = slice (fullText st) (lastNarrationSentIndex st) startIndex
              in (if trim narrationPart \<noteq> [] then [Token narrationPart] else [],
                  st\<lparr>jsonStarted := True\<rparr>)))
      else ([], st))"

text \<open>
  Step 2 of the loop body: the complete block.  The third component says that the
  function has closed the stream and returned.
\<close>

definition final_step :: "builtins \<Rightarrow> stream_state \<Rightarrow> event list \<times> stream_state \<times> bool" where
  "final_step B st =
     (if \<not> finalSent st then
        (case (indexOf (fullText st) ''<FINAL_JSON>'', indexOf (fullText st) ''</FINAL_JSON>'') of
           (Some start, Some end) \<Rightarrow>
             (if end > start then
                (let jsonText = trim (slice (fullText st) (start + length ''<FINAL_JSON>'') end)
                 in case (case JSON_parse B jsonText of
                            None \<Rightarrow> Inl SyntaxError
                          | Some parsed \<Rightarrow> hybrid_scoring B parsed) of
                      Inr p \<Rightarrow> ([Final p], st\<lparr>finalSent := True, fullText := []\<rparr>, True)
                    | Inl e \<Rightarrow> ([Error ''Invalid JSON structure from model.''], st, True))
              else ([], st, False))
         | _ \<Rightarrow> ([], st, False))
      else ([], st, False))"

text \<open>
  The \<open>for await\<close> loop and what follows it.  The result is the list of the events sent, in
  order, up to the close of the stream.
\<close>

fun stream_loop :: "builtins \<Rightarrow> stream_state \<Rightarrow> upstream list \<Rightarrow> event list" where
  "stream_loop B st [] =
     (if \<not> finalSent st then [Error ''Model did not return FINAL_JSON block.''] else [])"
| "stream_loop B st (Throw m # chunks) =
     [Error (case m of Some msg \<Rightarrow> msg | None \<Rightarrow> ''Streaming failed'')]"
| "stream_loop B st (Chunk text # chunks) =
     (if text = [] then stream_loop B st chunks
      else
        (let st1 = st\<lparr>fullText := fullText st @ text\<rparr>;
             (ev1, st2) = narration_step st1 text;
             (ev2, st3, returned) = final_step B st2
         in if returned then ev1 @ ev2 else ev1 @ ev2 @ stream_loop B st3 chunks))"

definition stream_start :: "builtins \<Rightarrow> upstream list \<Rightarrow> event list" where
  "stream_start B chunks = stream_loop B initial_state chunks"

section \<open>The synchronous route (app/api/analyze/route.ts)\<close>

datatype ServiceStatus = Healthy | Degraded | Down

record cause =
  c_name :: string
  probability :: rat
  reasoning :: string
  recommended_action :: string

record service =
  s_name :: string
  status :: ServiceStatus
  signals :: "string list"
  suspected_components :: "string list"

record node =
  n_id :: string
  n_label :: string

record edge =
  e_from :: string
  e_to :: string
  e_label :: string

record propagation_graph =
  nodes :: "node list"
  edges :: "edge list"

record AnalyzeResult =
  incident_type :: string
  executive_summary :: string
  severity_score :: rat
  business_impact_score :: rat
  estimated_recovery_time_minutes :: rat
  probable_causes :: "cause list"
  recommended_runbook_steps :: "string list"
  confidence :: rat
  services :: "service list"
  propagation :: propagation_graph
  external_intelligence :: string

subsection \<open>Safety helpers\<close>

definition toNumber :: "builtins \<Rightarrow> jsval \<Rightarrow> rat \<Rightarrow> js_error + rat" where
  "toNumber B v fallback =
     then_do (js_Number B v) (\<lambda>n. Inr (case n of Fin q \<Rightarrow> q | _ \<Rightarrow> fallback))"

definition toInt01to100 :: "builtins \<Rightarrow> jsval \<Rightarrow> rat \<Rightarrow> js_error + rat" where
  "toInt01to100 B v fallback =
     then_do (toNumber B v fallback) (\<lambda>n. Inr (clamp (Math_round n) 0 100))"

definition toProb01 :: "builtins \<Rightarrow> jsval \<Rightarrow> rat \<Rightarrow> js_error + rat" where
  "toProb01 B v fallback = then_do (toNumber B v fallback) (\<lambda>n. Inr (clamp n 0 1))"

definition toStringSafe :: "jsval \<Rightarrow> string \<Rightarrow> string" where
  "toStringSafe v fallback = (case v of JStr s \<Rightarrow> s | _ \<Rightarrow> fallback)"

text \<open>\<open>xs.map(f)\<close> for an \<open>f\<close> that can throw: the first exception ends the map.\<close>

fun map_throwing :: "('a \<Rightarrow> 'e + 'b) \<Rightarrow> 'a list \<Rightarrow> 'e + 'b list" where
  "map_throwing f [] = Inr []"
| "map_throwing f (x # xs) =
     then_do (f x) (\<lambda>y. then_do (map_throwing f xs) (\<lambda>ys. Inr (y # ys)))"

definition toStringArray :: "builtins \<Rightarrow> jsval \<Rightarrow> nat \<Rightarrow> js_error + string list" where
  "toStringArray B v limit =
     (if isArray v then
        then_do (map_throwing
                   (\<lambda>x. case x of
                          JStr s \<Rightarrow> Inr s
                        | JUndefined \<Rightarrow> Inr []
                        | JNull \<Rightarrow> Inr []
                        | _ \<Rightarrow> ToString B x)
                   (elements v)) (\<lambda>ss.
          Inr (take limit (filter (\<lambda>s. s \<noteq> []) (map trim ss))))
      else Inr [])"

definition safeServiceStatus :: "jsval \<Rightarrow> ServiceStatus" where
  "safeServiceStatus v =
     (if v = JStr ''healthy'' then Healthy
      else if v = JStr ''degraded'' then Degraded
      else if v = JStr ''down'' then Down
      else Degraded)"

definition json_candidate :: "string \<Rightarrow> string" where
  "json_candidate text =
     (let cleaned = trim (remove_all id ''```'' (remove_all toLowerCase_char ''```json'' text))
      in case (indexOf cleaned ''{'', lastIndexOf cleaned ''}'') of
           (Some first_i, Some last_i) \<Rightarrow>
             if last_i > first_i then slice cleaned first_i (last_i + 1) else cleaned
         | _ \<Rightarrow> cleaned)"

definition safeJSONParse :: "builtins \<Rightarrow> string \<Rightarrow> jsval option" where
  "safeJSONParse B text = JSON_parse B (json_candidate text)"

subsection \<open>Fallback builders\<close>

definition buildFallbackServices :: "string \<Rightarrow> service list" where
  "buildFallbackServices incidentType =
     (let base =
        [\<lparr>s_name = ''api-gateway'', status = Degraded, signals = [''Fallback service map''],
          suspected_components = [''request-routing'', ''auth'', ''rate-limiter'']\<rparr>,
         \<lparr>s_name = ''primary-db'', status = Degraded, signals = [''Fallback service map''],
          suspected_components = [''connections'', ''replication'', ''locks'']\<rparr>,
         \<lparr>s_name = ''cache'', status = Healthy, signals = [''Fallback service map''],
          suspected_components = [''evictions'', ''latency'', ''memory'']\<rparr>];
          it = toLowerCase incidentType
      in if js_includes it ''outage'' \<or> js_includes it ''down'' \<or> js_includes it ''critical''
         then [(base ! 0)\<lparr>status := Down\<rparr>, (base ! 1)\<lparr>status := Down\<rparr>,
               (base ! 2)\<lparr>status := Degraded\<rparr>]
         else base)"

definition buildPropagationFromServices :: "service list \<Rightarrow> propagation_graph" where
  "buildPropagationFromServices svcs =
     \<lparr>nodes = map (\<lambda>s. \<lparr>n_id = s_name s, n_label = s_name s\<rparr>) svcs,
      edges = (if length svcs \<ge> 3
               then [\<lparr>e_from = s_name (svcs ! 0), e_to = s_name (svcs ! 1),
                      e_label = ''depends_on''\<rparr>,
                     \<lparr>e_from = s_name (svcs ! 0), e_to = s_name (svcs ! 2),
                      e_label = ''uses_cache''\<rparr>]
               else [])\<rparr>"

subsection \<open>Hybrid deterministic scoring\<close>

definition calculateSeverityFromServices :: "service list \<Rightarrow> rat" where
  "calculateSeverityFromServices svcs =
     (let downCount = length (filter (\<lambda>s. status s = Down) svcs);
          degradedCount = length (filter (\<lambda>s. status s = Degraded) svcs);
          score = (if downCount \<ge> 2 then 70 else if downCount = 1 then 45 else 0)
      in clamp (score + of_nat degradedCount * 10) 0 100)"

definition calculateBlastRadius :: "service list \<Rightarrow> rat" where
  "calculateBlastRadius svcs =
     (let total = length svcs in
      if total = 0 then 0
      else
        let down = length (filter (\<lambda>s. status s = Down) svcs);
            degraded = length (filter (\<lambda>s. status s = Degraded) svcs);
            radius = ddiv (dadd (of_nat down) (dmul (of_nat degraded) (1 / 2))) (of_nat total)
        in clamp (Math_round (dmul radius 100)) 0 100)"

definition calculateImpactFromPropagation :: "propagation_graph \<Rightarrow> rat" where
  "calculateImpactFromPropagation p =
     (let nodeCount = length (nodes p); edgeCount = length (edges p)
      in clamp (of_nat nodeCount * 5 + of_nat edgeCount * 8) 0 100)"

subsection \<open>The normalizer: the body of POST after the JSON is parsed\<close>

definition normalize_causes :: "builtins \<Rightarrow> jsval \<Rightarrow> js_error + cause list" where
  "normalize_causes B parsed =
     then_do
       (map_throwing
          (\<lambda>c. then_do (toProb01 B (get_opt c ''probability'') 0) (\<lambda>p.
                 Inr \<lparr>c_name = toStringSafe (get_opt c ''name'') ''Unknown Cause'',
                      probability = p,
                      reasoning = toStringSafe (get_opt c ''reasoning'') [],
                      recommended_action = toStringSafe (get_opt c ''recommended_action'') []\<rparr>))
          (if isArray (get_opt parsed ''probable_causes'')
           then elements (get_opt parsed ''probable_causes'') else []))
       (\<lambda>cs. Inr (take 5 (sort_key (\<lambda>c. - probability c)
                            (filter (\<lambda>c. length (trim (c_name c)) > 0) cs))))"

definition normalize_services :: "builtins \<Rightarrow> jsval \<Rightarrow> js_error + service list" where
  "normalize_services B parsed =
     then_do
       (map_throwing
          (\<lambda>s. then_do (toStringArray B (get_opt s ''signals'') 12) (\<lambda>sig.
                 then_do (toStringArray B (get_opt s ''suspected_components'') 12) (\<lambda>sc.
                 Inr \<lparr>s_name = (let n = trim (toStringSafe (get_opt s ''name'') [])
                                in if n \<noteq> [] then n else ''unknown-service''),
                      status = safeServiceStatus (get_opt s ''status''),
                      signals = sig,
                      suspected_components = sc\<rparr>)))
          (if isArray (get_opt parsed ''services'')
           then elements (get_opt parsed ''services'') else []))
       (\<lambda>svcs. Inr (filter (\<lambda>s. length (s_name s) > 0) svcs))"

text \<open>The filter with the \<open>seen\<close> set: the first entry of a key stays.\<close>

fun dedup_by :: "('a \<Rightarrow> string) \<Rightarrow> string set \<Rightarrow> 'a list \<Rightarrow> 'a list" where
  "dedup_by key seen [] = []"
| "dedup_by key seen (x # xs) =
     (if key x \<in> seen then dedup_by key seen xs
      else x # dedup_by key (insert (key x) seen) xs)"

definition normalize_propagation :: "jsval \<Rightarrow> propagation_graph option" where
  "normalize_propagation parsed =
     (let pn = get_opt (get_opt parsed ''propagation'') ''nodes'';
          pe = get_opt (get_opt parsed ''propagation'') ''edges''
      in if truthy pn \<and> truthy pe \<and> isArray pn \<and> isArray pe then
           (let ns = take 30 (dedup_by n_id {}
                       (filter (\<lambda>n. n_id n \<noteq> [] \<and> n_label n \<noteq> [])
                          (map (\<lambda>n. \<lparr>n_id = trim (toStringSafe (get_opt n ''id'') []),
                                     n_label = trim (toStringSafe (get_opt n ''label'') [])\<rparr>)
                             (elements pn))));
                es = take 60
                       (filter (\<lambda>e. e_from e \<noteq> [] \<and> e_to e \<noteq> [])
                          (map (\<lambda>e. \<lparr>e_from = trim (toStringSafe (get_opt e ''from'') []),
                                     e_to = trim (toStringSafe (get_opt e ''to'') []),
                                     e_label = (let l = trim (toStringSafe (get_opt e ''label'') [])
                                                in if l \<noteq> [] then l else ''depends_on'')\<rparr>)
                             (elements pe)))
            in if length ns \<ge> 2 then Some \<lparr>nodes = ns, edges = es\<rparr> else None)
         else None)"

definition normalize :: "builtins \<Rightarrow> string \<Rightarrow> jsval \<Rightarrow> js_error + AnalyzeResult" where
  "normalize B externalContext parsed =
     (let incident_type' = toStringSafe (get_opt parsed ''incident_type'') ''Unknown Incident'';
          executive_summary' = toStringSafe (get_opt parsed ''executive_summary'') []
      in
      then_do (toInt01to100 B (get_opt parsed ''severity_score'') 0) (\<lambda>aiSeverity.
      then_do (toInt01to100 B (get_opt parsed ''business_impact_score'') 0) (\<lambda>aiImpact.
      then_do (toNumber B (get_opt parsed ''estimated_recovery_time_minutes'') 0) (\<lambda>minutes.
      then_do (toProb01 B (get_opt parsed ''confidence'') 0) (\<lambda>confidence'.
      then_do (normalize_causes B parsed) (\<lambda>probable_causes'.
      then_do (toStringArray B (get_opt parsed ''recommended_runbook_steps'') 10) (\<lambda>steps.
      then_do (normalize_services B parsed) (\<lambda>mapped.
      let services' = dedup_by s_name {}
                        (if length mapped < 3 then buildFallbackServices incident_type'
                         else mapped);
          propagation' = (case normalize_propagation parsed of
                            Some p \<Rightarrow> p
                          | None \<Rightarrow> buildPropagationFromServices services');
          deterministicSeverity = calculateSeverityFromServices services';
          deterministicImpact = calculateImpactFromPropagation propagation';
          blastRadiusScore = calculateBlastRadius services';
          finalSeverity = clamp (Math_round (max aiSeverity deterministicSeverity)) 0 100;
          finalImpact = clamp (Math_round
                            (dadd (dadd (dmul aiImpact (1 / 2))
                                        (dmul deterministicImpact (fl (3 / 10))))
                                  (dmul blastRadiusScore (fl (1 / 5))))) 0 100
      in Inr \<lparr>incident_type = incident_type',
              executive_summary = executive_summary',
              severity_score = finalSeverity,
              business_impact_score = finalImpact,
              estimated_recovery_time_minutes = max 0 minutes,
              probable_causes = probable_causes',
              recommended_runbook_steps = steps,
              confidence = confidence',
              services = services',
              propagation = propagation',
              external_intelligence = externalContext\<rparr>))))))))"

subsection \<open>The route\<close>

datatype analyze_response = ErrorResponse nat string | ReportResponse AnalyzeResult

text \<open>
  The arguments are the outcome of \<open>req.json()\<close>, the external context that the enrichment
  step has produced, and the outcome of the model call.
\<close>

definition POST_analyze ::
  "builtins \<Rightarrow> js_error + jsval \<Rightarrow> string \<Rightarrow> js_error + string \<Rightarrow> analyze_response" where
  "POST_analyze B body externalContext result =
     (case body of
        Inl _ \<Rightarrow> ErrorResponse 500 ''Failed to analyze logs''
      | Inr b \<Rightarrow>
          (let logs = get_opt b ''logs'' in
           if \<not> truthy logs \<or> \<not> isString logs \<or> trim (toStringSafe logs []) = []
           then ErrorResponse 400 ''Logs are required''
           else
             (case result of
                Inl _ \<Rightarrow> ErrorResponse 500 ''Failed to analyze logs''
              | Inr text \<Rightarrow>
                  (case safeJSONParse B text of
                     None \<Rightarrow> ErrorResponse 500 ''AI returned invalid JSON''
                   | Some parsed \<Rightarrow>
                       (case normalize B externalContext parsed of
                          Inl _ \<Rightarrow> ErrorResponse 500 ''Failed to analyze logs''
                        | Inr r \<Rightarrow> ReportResponse r)))))"

section \<open>The execution trigger (app/api/execute/route.ts)\<close>

record webhook_call =
  action :: string
  target :: jsval
  triggeredBy :: string

datatype execute_response = ExecuteError nat string | Executed jsval nat

text \<open>
  The arguments are the outcome of \<open>req.json()\<close> and the webhook: its HTTP status, or the
  message of the exception \<open>fetch\<close> throws.  The result is the list of the calls made to
  the webhook and the response.
\<close>

definition POST_execute ::
  "string option + jsval \<Rightarrow> (webhook_call \<Rightarrow> string option + nat) \<Rightarrow>
     webhook_call list \<times> execute_response" where
  "POST_execute body fetch =
     (case body of
        Inl m \<Rightarrow> ([], ExecuteError 500 (case m of Some msg \<Rightarrow> msg | None \<Rightarrow> ''Execution failed''))
      | Inr b \<Rightarrow>
          (let service = get_opt b ''service'' in
           if service \<notin> set [JStr ''api-gateway'', JStr ''primary-db'', JStr ''cache'']
           then ([], ExecuteError 400 ''Invalid service'')
           else
             (let call = \<lparr>action = ''scale_up'', target = service, triggeredBy = ''AutoOps AI''\<rparr>
              in case fetch call of
                   Inl m \<Rightarrow> ([call], ExecuteError 500
                                       (case m of Some msg \<Rightarrow> msg | None \<Rightarrow> ''Execution failed''))
                 | Inr webhook_status \<Rightarrow> ([call], Executed service webhook_status))))"

section \<open>Notions used by the properties\<close>

text \<open>The terminal events of the stream: \<open>final\<close> and \<open>error\<close>.\<close>

definition is_terminal :: "event \<Rightarrow> bool" where
  "is_terminal e = (case e of Token _ \<Rightarrow> False | _ \<Rightarrow> True)"

text \<open>
  The fields of a payload other than the three that the hybrid scoring assigns, in their
  order; a payload that is not an object is taken whole.
\<close>

definition other_fields :: "jsval \<Rightarrow> jsval" where
  "other_fields v =
     (case v of
        JObj kvs \<Rightarrow>
          JObj (filter (\<lambda>kv. fst kv \<notin> {''severity_score'', ''business_impact_score'',
                                           ''confidence''}) kvs)
      | _ \<Rightarrow> v)"

text \<open>
  The body of the response of the synchronous route, \<open>{...safeResponse,
  external_intelligence}\<close>, as the JSON value that \<open>NextResponse.json\<close> serialises.
\<close>

definition status_json :: "ServiceStatus \<Rightarrow> jsval" where
  "status_json st =
     (case st of Healthy \<Rightarrow> JStr ''healthy'' | Degraded \<Rightarrow> JStr ''degraded''
      | Down \<Rightarrow> JStr ''down'')"

definition report_json :: "AnalyzeResult \<Rightarrow> jsval" where
  "report_json r =
     JObj
      [(''incident_type'', JStr (incident_type r)),
       (''executive_summary'', JStr (executive_summary r)),
       (''severity_score'', JNum (Fin (severity_score r))),
       (''business_impact_score'', JNum (Fin (business_impact_score r))),
       (''estimated_recovery_time_minutes'', JNum (Fin (estimated_recovery_time_minutes r))),
       (''probable_causes'',
          JArr (map (\<lambda>c. JObj [(''name'', JStr (c_name c)),
                                 (''probability'', JNum (Fin (probability c))),
                                 (''reasoning'', JStr (reasoning c)),
                                 (''recommended_action'', JStr (recommended_action c))])
                  (probable_causes r))),
       (''recommended_runbook_steps'', JArr (map JStr (recommended_runbook_steps r))),
       (''confidence'', JNum (Fin (confidence r))),
       (''services'',
          JArr (map (\<lambda>s. JObj [(''name'', JStr (s_name s)),
                                 (''status'', status_json (status s)),
                                 (''signals'', JArr (map JStr (signals s))),
                                 (''suspected_components'',
                                    JArr (map JStr (suspected_components s)))])
                  (services r))),
       (''propagation'',
          JObj [(''nodes'', JArr (map (\<lambda>n. JObj [(''id'', JStr (n_id n)),
                                                   (''label'', JStr (n_label n))])
                                    (nodes (propagation r)))),
                (''edges'', JArr (map (\<lambda>e. JObj [(''from'', JStr (e_from e)),
                                                   (''to'', JStr (e_to e)),
                                                   (''label'', JStr (e_label e))])
                                    (edges (propagation r))))]),
       (''external_intelligence'', JStr (external_intelligence r))]"

definition sync_report :: "builtins \<Rightarrow> string \<Rightarrow> jsval \<Rightarrow> js_error + jsval" where
  "sync_report B externalContext parsed =
     then_do (normalize B externalContext parsed) (\<lambda>r. Inr (report_json r))"

text \<open>
  An instance of the built-ins for the concrete runs below.  Its \<open>JSON.parse\<close> knows the
  two payloads of the examples and rejects every other text; none of the runs converts
  between strings and numbers.
\<close>

definition sample_builtins :: builtins where
  \<open>sample_builtins =
     \<lparr>StringToNumber = (\<lambda>s. NaN),
      NumberToString = (\<lambda>n. ''NaN''),
      JSON_parse = (\<lambda>s.
        if s = ''{"severity_score":90}''
        then Some (JObj [(''severity_score'', JNum (Fin 90))])
        else if s = ''{"incident_type":"","services":[{"status":"exploded"}]}''
        then Some (JObj [(''incident_type'', JStr []),
                         (''services'', JArr [JObj [(''status'', JStr ''exploded'')]])])
        else None)\<rparr>\<close>

text \<open>
  The blend of the business impact as both routes write it, \<open>aiImpact * 0.5 +
  deterministicImpact * 0.3 + blastRadiusScore * 0.2\<close>, in the arithmetic of doubles, and
  the blast radius of \<open>n_down\<close> services down and \<open>n_degraded\<close> degraded out of
  \<open>n_total\<close>.
\<close>

definition impact_blend :: "rat \<Rightarrow> rat \<Rightarrow> rat \<Rightarrow> rat" where
  "impact_blend ai det blast =
     dadd (dadd (dmul ai (1 / 2)) (dmul det (fl (3 / 10)))) (dmul blast (fl (1 / 5)))"

definition blast_radius :: "nat \<Rightarrow> nat \<Rightarrow> nat \<Rightarrow> rat" where
  "blast_radius n_down n_degraded n_total =
     (if n_total = 0 then 0
      else clamp (Math_round
                    (dmul (ddiv (dadd (of_nat n_down) (dmul (of_nat n_degraded) (1 / 2)))
                                (of_nat n_total)) 100)) 0 100)"

text \<open>
  What the streaming route scores: the \<open>services\<close> array of the payload and its
  \<open>propagation\<close> object, each as the model sent it, or the empty default.
\<close>

definition stream_services :: "jsval \<Rightarrow> jsval list" where
  "stream_services parsed = elements (get_opt parsed ''services'')"

definition stream_propagation :: "jsval \<Rightarrow> jsval" where
  "stream_propagation parsed =
     (if truthy (get_opt parsed ''propagation'') \<and> typeof_object (get_opt parsed ''propagation'')
      then get_opt parsed ''propagation''
      else JObj [(''nodes'', JArr []), (''edges'', JArr [])])"

text \<open>The number of services of a status, in a payload and in a report.\<close>

definition count_raw :: "string \<Rightarrow> jsval list \<Rightarrow> nat" where
  "count_raw st svcs = length (filter (\<lambda>s. get_opt s ''status'' = JStr st) svcs)"

definition count_status :: "ServiceStatus \<Rightarrow> service list \<Rightarrow> nat" where
  "count_status st svcs = length (filter (\<lambda>s. status s = st) svcs)"

text \<open>Three payloads for the concrete runs.\<close>

definition payload_two_down :: jsval where
  "payload_two_down =
     JObj [(''severity_score'', JNum (Fin 0)),
           (''services'',
              JArr [JObj [(''name'', JStr ''web''), (''status'', JStr ''down'')],
                    JObj [(''name'', JStr ''db''), (''status'', JStr ''down'')],
                    JObj [(''name'', JStr ''cache''), (''status'', JStr ''healthy'')]])]"

definition payload_one_down :: jsval where
  "payload_one_down =
     JObj [(''confidence'', JNum (Fin (9 / 10))),
           (''services'',
              JArr [JObj [(''name'', JStr ''web''), (''status'', JStr ''down'')],
                    JObj [(''name'', JStr ''db''), (''status'', JStr ''healthy'')],
                    JObj [(''name'', JStr ''cache''), (''status'', JStr ''healthy'')]])]"

definition payload_tie :: jsval where
  "payload_tie =
     JObj [(''business_impact_score'', JNum (Fin 10)),
           (''services'',
              JArr [JObj [(''name'', JStr ''web''), (''status'', JStr ''degraded'')],
                    JObj [(''name'', JStr ''db''), (''status'', JStr ''healthy'')],
                    JObj [(''name'', JStr ''cache''), (''status'', JStr ''healthy'')],
                    JObj [(''name'', JStr ''queue''), (''status'', JStr ''healthy'')]]),
           (''propagation'',
              JObj [(''nodes'', JArr [JObj [(''id'', JStr ''web''), (''label'', JStr ''web'')],
                                      JObj [(''id'', JStr ''db''), (''label'', JStr ''db'')],
                                      JObj [(''id'', JStr ''cache''), (''label'', JStr ''cache'')]]),
                    (''edges'', JArr [JObj [(''from'', JStr ''web''), (''to'', JStr ''db'')]])])]"

section \<open>Auxiliary facts\<close>

lemma floor_rat_numeral [simp]: "\<lfloor>numeral a / numeral b :: rat\<rfloor> = numeral a div numeral b"
  using floor_divide_of_int_eq [of "numeral a" "numeral b", where ?'a = rat] by simp

lemma floor_rat_one_numeral [simp]: "\<lfloor>1 / numeral b :: rat\<rfloor> = 1 div numeral b"
  using floor_divide_of_int_eq [of 1 "numeral b", where ?'a = rat] by simp

lemma then_do_Inr [simp]: "then_do (Inr x) f = f x"
  by (simp add: then_do_def)

lemma then_do_Inl [simp]: "then_do (Inl e) f = Inl e"
  by (simp add: then_do_def)

lemma then_do_eq_Inr: "then_do r f = Inr y \<longleftrightarrow> (\<exists>x. r = Inr x \<and> f x = Inr y)"
  by (cases r) simp_all

lemma Math_round_of_int [simp]: "Math_round (of_int i) = of_int i"
proof -
  have "\<lfloor>(of_int i :: rat) + 1 / 2\<rfloor> = i" by linarith
  then show ?thesis by (simp add: Math_round_def)
qed

lemma Math_round_of_nat [simp]: "Math_round (of_nat n) = of_nat n"
  using Math_round_of_int [of "int n"] by simp

lemma Math_round_0 [simp]: "Math_round 0 = 0"
  using Math_round_of_int [of 0] by simp

lemma Math_round_numeral [simp]: "Math_round (numeral k) = numeral k"
  using Math_round_of_int [of "numeral k"] by simp

lemma Math_round_Ints: "Math_round x \<in> \<int>"
  by (simp add: Math_round_def)

lemma Math_round_id: "x \<in> \<int> \<Longrightarrow> Math_round x = x"
  by (auto elim!: Ints_cases)

lemma clamp_bounds: "lo \<le> hi \<Longrightarrow> lo \<le> clamp n lo hi \<and> clamp n lo hi \<le> hi"
  by (auto simp: clamp_def)

lemma clamp_Ints: "n \<in> \<int> \<Longrightarrow> lo \<in> \<int> \<Longrightarrow> hi \<in> \<int> \<Longrightarrow> clamp n lo hi \<in> \<int>"
  by (auto simp: clamp_def min_def max_def)

lemma clamp_idem: "lo \<le> n \<Longrightarrow> n \<le> hi \<Longrightarrow> clamp n lo hi = n"
  by (auto simp: clamp_def)

lemma safeInt_eq_toInt01to100: "safeInt B v = toInt01to100 B v 0"
  by (cases "js_Number B v")
     (auto simp: safeInt_def toInt01to100_def toNumber_def clamp_def split: jsnum.splits)

lemma safeProb_eq_toProb01: "safeProb B v = toProb01 B v 0"
  by (cases "js_Number B v")
     (auto simp: safeProb_def toProb01_def toNumber_def clamp_def split: jsnum.splits)

lemma toInt01to100_range:
  assumes "toInt01to100 B v fallback = Inr x"
  shows "x \<in> \<int> \<and> 0 \<le> x \<and> x \<le> 100"
proof -
  from assms obtain n where "x = clamp (Math_round n) 0 100"
    by (auto simp: toInt01to100_def then_do_eq_Inr)
  then show ?thesis
    using clamp_bounds [of 0 100 "Math_round n"] clamp_Ints [OF Math_round_Ints, of 0 100 n]
    by simp
qed

lemma toProb01_range:
  assumes "toProb01 B v fallback = Inr x"
  shows "0 \<le> x \<and> x \<le> 1"
  using assms clamp_bounds [of 0 1]
  by (auto simp: toProb01_def then_do_eq_Inr)


lemma get_prop_JObj [simp]: "get_prop (JObj kvs) k = Inr (get_opt (JObj kvs) k)"
  by (simp add: get_prop_def)

lemma get_opt_update:
  "get_opt (JObj (AList.update k x kvs)) k' = (if k' = k then x else get_opt (JObj kvs) k')"
  by (simp add: get_opt_def update_conv')

lemma elements_if_isArray: "(if isArray v then elements v else []) = elements v"
  by (cases v) (simp_all add: isArray_def elements_def)

subsection \<open>Doubles\<close>

lemma fl_0 [simp]: "fl 0 = 0"
  by (simp add: fl_def)

lemma dmul_0_left [simp]: "dmul 0 y = 0"
  by (simp add: dmul_def)

lemma dmul_0_right [simp]: "dmul x 0 = 0"
  by (simp add: dmul_def)

lemma dadd_0_0 [simp]: "dadd 0 0 = 0"
  by (simp add: dadd_def)

lemma ddiv_0_left [simp]: "ddiv 0 y = 0"
  by (simp add: ddiv_def)

lemma impact_blend_0 [simp]: "impact_blend 0 0 0 = 0"
  by (simp add: impact_blend_def)

text \<open>The routes' own blast radius and deterministic scores, by the counts.\<close>

lemma calculateBlastRadius_eq:
  "calculateBlastRadius svcs =
     blast_radius (count_status Down svcs) (count_status Degraded svcs) (length svcs)"
  by (simp add: calculateBlastRadius_def blast_radius_def count_status_def Let_def)

lemma calculateBlastRadius_stream_eq:
  "calculateBlastRadius_stream svcs =
     blast_radius (count_raw ''down'' svcs) (count_raw ''degraded'' svcs) (length svcs)"
  by (simp add: calculateBlastRadius_stream_def blast_radius_def count_raw_def Let_def)

lemma foldl_status_points:
  "foldl (\<lambda>score s. score + status_points s) acc svcs =
     acc + 35 * of_nat (count_raw ''down'' svcs) + 15 * of_nat (count_raw ''degraded'' svcs)"
  by (induction svcs arbitrary: acc) (auto simp: count_raw_def status_points_def algebra_simps)

lemma calculateSeverityFromServices_stream_eq:
  "calculateSeverityFromServices_stream svcs =
     clamp (35 * of_nat (count_raw ''down'' svcs) + 15 * of_nat (count_raw ''degraded'' svcs)) 0 100"
  by (simp add: calculateSeverityFromServices_stream_def foldl_status_points)

lemma calculateSeverityFromServices_eq:
  "calculateSeverityFromServices svcs =
     clamp ((if 2 \<le> count_status Down svcs then 70
             else if count_status Down svcs = 1 then 45 else 0) +
            10 * of_nat (count_status Degraded svcs)) 0 100"
  by (simp add: calculateSeverityFromServices_def count_status_def Let_def mult.commute)

lemma calculateImpactFromPropagation_eq:
  "calculateImpactFromPropagation p =
     clamp (5 * of_nat (length (nodes p)) + 8 * of_nat (length (edges p))) 0 100"
  by (simp add: calculateImpactFromPropagation_def mult.commute)

lemma elements_length_if_isArray:
  "(if isArray v then length (elements v) else 0) = length (elements v)"
  by (cases v) (simp_all add: isArray_def elements_def)

lemma calculateImpactFromPropagation_stream_eq:
  "calculateImpactFromPropagation_stream pg =
     clamp (5 * of_nat (length (elements (get_opt pg ''nodes''))) +
            8 * of_nat (length (elements (get_opt pg ''edges'')))) 0 100"
  by (simp add: calculateImpactFromPropagation_stream_def elements_length_if_isArray
      mult.commute Let_def)

subsection \<open>The two scorings, unfolded\<close>

text \<open>What the hybrid scoring assigns to an object.\<close>

lemma hybrid_scoring_JObj_eq:
  assumes "safeInt B (get_opt (JObj kvs) ''severity_score'') = Inr ai"
    and "safeInt B (get_opt (JObj kvs) ''business_impact_score'') = Inr aj"
    and "safeProb B (get_opt (JObj kvs) ''confidence'') = Inr c"
  shows "hybrid_scoring B (JObj kvs) =
           Inr (JObj
                (AList.update ''confidence'' (JNum (Fin c))
                  (AList.update ''business_impact_score''
                     (JNum (Fin (clamp (Math_round
                        (impact_blend aj
                           (calculateImpactFromPropagation_stream (stream_propagation (JObj kvs)))
                           (calculateBlastRadius_stream (stream_services (JObj kvs))))) 0 100)))
                  (AList.update ''severity_score''
                     (JNum (Fin (clamp (max ai
                        (calculateSeverityFromServices_stream (stream_services (JObj kvs))))
                        0 100)))
                     kvs))))"
  unfolding hybrid_scoring_def
  by (simp add: assms set_prop_def get_opt_update elements_if_isArray Let_def
      impact_blend_def stream_services_def stream_propagation_def)

lemma hybrid_scoring_JObj:
  assumes "hybrid_scoring B (JObj kvs) = Inr S"
  shows "\<exists>ai aj c.
           safeInt B (get_opt (JObj kvs) ''severity_score'') = Inr ai \<and>
           safeInt B (get_opt (JObj kvs) ''business_impact_score'') = Inr aj \<and>
           safeProb B (get_opt (JObj kvs) ''confidence'') = Inr c \<and>
           S = JObj
                (AList.update ''confidence'' (JNum (Fin c))
                  (AList.update ''business_impact_score''
                     (JNum (Fin (clamp (Math_round
                        (impact_blend aj
                           (calculateImpactFromPropagation_stream (stream_propagation (JObj kvs)))
                           (calculateBlastRadius_stream (stream_services (JObj kvs))))) 0 100)))
                  (AList.update ''severity_score''
                     (JNum (Fin (clamp (max ai
                        (calculateSeverityFromServices_stream (stream_services (JObj kvs))))
                        0 100)))
                     kvs)))"
proof -
  from assms obtain ai aj c where
    ai: "safeInt B (get_opt (JObj kvs) ''severity_score'') = Inr ai" and
    aj: "safeInt B (get_opt (JObj kvs) ''business_impact_score'') = Inr aj" and
    c: "safeProb B (get_opt (JObj kvs) ''confidence'') = Inr c"
    unfolding hybrid_scoring_def
    by (auto simp: then_do_eq_Inr set_prop_def get_opt_update Let_def)
  from hybrid_scoring_JObj_eq [OF ai aj c] assms ai aj c show ?thesis by auto
qed

lemma hybrid_scoring_fields:
  assumes "hybrid_scoring B (JObj kvs) = Inr S"
  shows "\<exists>ai aj c.
           safeInt B (get_opt (JObj kvs) ''severity_score'') = Inr ai \<and>
           safeInt B (get_opt (JObj kvs) ''business_impact_score'') = Inr aj \<and>
           safeProb B (get_opt (JObj kvs) ''confidence'') = Inr c \<and>
           get_opt S ''confidence'' = JNum (Fin c) \<and>
           get_opt S ''severity_score'' =
             JNum (Fin (clamp (max ai
                (calculateSeverityFromServices_stream (stream_services (JObj kvs)))) 0 100)) \<and>
           get_opt S ''business_impact_score'' =
             JNum (Fin (clamp (Math_round
                (impact_blend aj
                   (calculateImpactFromPropagation_stream (stream_propagation (JObj kvs)))
                   (calculateBlastRadius_stream (stream_services (JObj kvs))))) 0 100))"
proof -
  from hybrid_scoring_JObj [OF assms] obtain ai aj c where
    ai: "safeInt B (get_opt (JObj kvs) ''severity_score'') = Inr ai" and
    aj: "safeInt B (get_opt (JObj kvs) ''business_impact_score'') = Inr aj" and
    c: "safeProb B (get_opt (JObj kvs) ''confidence'') = Inr c" and
    S: "S = JObj
                (AList.update ''confidence'' (JNum (Fin c))
                  (AList.update ''business_impact_score''
                     (JNum (Fin (clamp (Math_round
                        (impact_blend aj
                           (calculateImpactFromPropagation_stream (stream_propagation (JObj kvs)))
                           (calculateBlastRadius_stream (stream_services (JObj kvs))))) 0 100)))
                  (AList.update ''severity_score''
                     (JNum (Fin (clamp (max ai
                        (calculateSeverityFromServices_stream (stream_services (JObj kvs))))
                        0 100)))
                     kvs)))"
    by blast
  have 1: "get_opt S ''confidence'' = JNum (Fin c)"
    unfolding S by (simp add: get_opt_update)
  have 2: "get_opt S ''severity_score'' =
             JNum (Fin (clamp (max ai
                (calculateSeverityFromServices_stream (stream_services (JObj kvs)))) 0 100))"
    unfolding S by (simp add: get_opt_update)
  have 3: "get_opt S ''business_impact_score'' =
             JNum (Fin (clamp (Math_round
                (impact_blend aj
                   (calculateImpactFromPropagation_stream (stream_propagation (JObj kvs)))
                   (calculateBlastRadius_stream (stream_services (JObj kvs))))) 0 100))"
    unfolding S by (simp add: get_opt_update)
  from ai aj c 1 2 3 show ?thesis by blast
qed

text \<open>What the normalizer computes from its parts, and what a report it returns holds.\<close>

lemma normalize_eq:
  assumes "toInt01to100 B (get_opt parsed ''severity_score'') 0 = Inr ai"
    and "toInt01to100 B (get_opt parsed ''business_impact_score'') 0 = Inr aj"
    and "toNumber B (get_opt parsed ''estimated_recovery_time_minutes'') 0 = Inr minutes"
    and "toProb01 B (get_opt parsed ''confidence'') 0 = Inr c"
    and "normalize_causes B parsed = Inr cs"
    and "toStringArray B (get_opt parsed ''recommended_runbook_steps'') 10 = Inr steps"
    and "normalize_services B parsed = Inr mapped"
    and "dedup_by s_name {}
           (if length mapped < 3
            then buildFallbackServices
                   (toStringSafe (get_opt parsed ''incident_type'') ''Unknown Incident'')
            else mapped) = svcs"
    and "(case normalize_propagation parsed of
            Some p \<Rightarrow> p
          | None \<Rightarrow> buildPropagationFromServices svcs) = pg"
  shows "normalize B ctx parsed =
           Inr \<lparr>incident_type = toStringSafe (get_opt parsed ''incident_type'') ''Unknown Incident'',
                executive_summary = toStringSafe (get_opt parsed ''executive_summary'') [],
                severity_score =
                  clamp (Math_round (max ai (calculateSeverityFromServices svcs))) 0 100,
                business_impact_score =
                  clamp (Math_round
                    (impact_blend aj (calculateImpactFromPropagation pg)
                       (calculateBlastRadius svcs))) 0 100,
                estimated_recovery_time_minutes = max 0 minutes,
                probable_causes = cs,
                recommended_runbook_steps = steps,
                confidence = c,
                services = svcs,
                propagation = pg,
                external_intelligence = ctx\<rparr>"
  unfolding normalize_def Let_def impact_blend_def
  by (simp only: assms then_do_Inr)

lemma normalize_scores:
  assumes "normalize B ctx parsed = Inr R"
  shows "\<exists>aiSeverity aiImpact c.
           toInt01to100 B (get_opt parsed ''severity_score'') 0 = Inr aiSeverity \<and>
           toInt01to100 B (get_opt parsed ''business_impact_score'') 0 = Inr aiImpact \<and>
           toProb01 B (get_opt parsed ''confidence'') 0 = Inr c \<and>
           severity_score R =
             clamp (Math_round (max aiSeverity (calculateSeverityFromServices (services R)))) 0 100 \<and>
           business_impact_score R =
             clamp (Math_round (impact_blend aiImpact
                                  (calculateImpactFromPropagation (propagation R))
                                  (calculateBlastRadius (services R)))) 0 100 \<and>
           confidence R = c"
  using assms unfolding normalize_def Let_def impact_blend_def
  by (auto simp: then_do_eq_Inr)

lemma calculateSeverityFromServices_Ints: "calculateSeverityFromServices svcs \<in> \<int>"
  unfolding calculateSeverityFromServices_def Let_def
  by (intro clamp_Ints) auto

lemma max_Ints: "(a :: rat) \<in> \<int> \<Longrightarrow> b \<in> \<int> \<Longrightarrow> max a b \<in> \<int>"
  by (simp add: max_def)

lemma normalize_final_scores:
  assumes "normalize B ctx parsed = Inr R"
  shows "\<exists>ai aj c.
           toInt01to100 B (get_opt parsed ''severity_score'') 0 = Inr ai \<and>
           toInt01to100 B (get_opt parsed ''business_impact_score'') 0 = Inr aj \<and>
           toProb01 B (get_opt parsed ''confidence'') 0 = Inr c \<and>
           severity_score R = clamp (max ai (calculateSeverityFromServices (services R))) 0 100 \<and>
           business_impact_score R =
             clamp (Math_round (impact_blend aj
                                  (calculateImpactFromPropagation (propagation R))
                                  (calculateBlastRadius (services R)))) 0 100 \<and>
           confidence R = c"
proof -
  from normalize_scores [OF assms] obtain ai aj c where
    ai: "toInt01to100 B (get_opt parsed ''severity_score'') 0 = Inr ai" and
    aj: "toInt01to100 B (get_opt parsed ''business_impact_score'') 0 = Inr aj" and
    c: "toProb01 B (get_opt parsed ''confidence'') 0 = Inr c" and
    sev: "severity_score R =
            clamp (Math_round (max ai (calculateSeverityFromServices (services R)))) 0 100" and
    imp: "business_impact_score R =
            clamp (Math_round (impact_blend aj
                                 (calculateImpactFromPropagation (propagation R))
                                 (calculateBlastRadius (services R)))) 0 100" and
    conf: "confidence R = c"
    by blast
  from toInt01to100_range [OF ai] have "ai \<in> \<int>" by simp
  then have "max ai (calculateSeverityFromServices (services R)) \<in> \<int>"
    by (rule max_Ints) (rule calculateSeverityFromServices_Ints)
  then have "Math_round (max ai (calculateSeverityFromServices (services R))) =
               max ai (calculateSeverityFromServices (services R))"
    by (rule Math_round_id)
  with sev have sev': "severity_score R =
            clamp (max ai (calculateSeverityFromServices (services R))) 0 100"
    by simp
  from ai aj c sev' imp conf show ?thesis by blast
qed

subsection \<open>The parser\<close>

lemma narration_step_shape:
  assumes "narration_step st text = (ev, st')"
  shows "(\<exists>ts. ev = map Token ts) \<and> finalSent st' = finalSent st \<and> fullText st' = fullText st"
proof -
  have tok: "\<And>x. \<exists>ts. [Token x] = map Token ts"
    by (rule_tac x = "[x]" in exI) simp
  show ?thesis
    using assms tok
    by (auto simp: narration_step_def Let_def split: if_splits option.splits)
qed

lemma final_step_cases:
  assumes "final_step B st = (ev, st', returned)"
  shows "(returned \<and> (\<exists>t. ev = [t] \<and> is_terminal t)) \<or> (\<not> returned \<and> ev = [] \<and> st' = st)"
  using assms
  by (auto simp: final_step_def Let_def is_terminal_def
           split: if_splits option.splits sum.splits)

lemma final_step_Final:
  assumes "final_step B st = (ev, st', returned)" "Final p \<in> set ev"
  shows "\<exists>jsonText parsed. JSON_parse B jsonText = Some parsed \<and> hybrid_scoring B parsed = Inr p"
  using assms
  by (fastforce simp: final_step_def Let_def split: if_splits option.splits sum.splits)

lemma stream_loop_shape:
  "\<not> finalSent st \<Longrightarrow> \<exists>ts t. stream_loop B st chunks = map Token ts @ [t] \<and> is_terminal t"
proof (induction chunks arbitrary: st)
  case Nil
  then show ?case by (auto simp: is_terminal_def)
next
  case (Cons c chunks)
  show ?case
  proof (cases c)
    case (Throw m)
    then show ?thesis by (auto simp: is_terminal_def)
  next
    case (Chunk frag)
    show ?thesis
    proof (cases "frag = []")
      case True
      with Cons Chunk show ?thesis by simp
    next
      case False
      let ?st1 = "st\<lparr>fullText := fullText st @ frag\<rparr>"
      obtain ev1 st2 where n: "narration_step ?st1 frag = (ev1, st2)"
        by (cases "narration_step ?st1 frag")
      obtain ev2 st3 returned where f: "final_step B st2 = (ev2, st3, returned)"
        by (cases "final_step B st2")
      from narration_step_shape [OF n] Cons.prems
      obtain ts1 where ev1: "ev1 = map Token ts1" and fs2: "\<not> finalSent st2" by auto
      from final_step_cases [OF f] show ?thesis
      proof
        assume "returned \<and> (\<exists>t. ev2 = [t] \<and> is_terminal t)"
        then show ?thesis using False n f ev1 Chunk by auto
      next
        assume a: "\<not> returned \<and> ev2 = [] \<and> st3 = st2"
        with Cons.IH [of st3] fs2
        obtain ts t where "stream_loop B st3 chunks = map Token ts @ [t]" "is_terminal t"
          by auto
        then have "stream_loop B st (c # chunks) = map Token (ts1 @ ts) @ [t]"
          using False n f ev1 a Chunk by simp
        with \<open>is_terminal t\<close> show ?thesis by blast
      qed
    qed
  qed
qed

lemma stream_loop_Final:
  "Final p \<in> set (stream_loop B st chunks) \<Longrightarrow>
     \<exists>jsonText parsed. JSON_parse B jsonText = Some parsed \<and> hybrid_scoring B parsed = Inr p"
proof (induction chunks arbitrary: st)
  case Nil
  then show ?case by (simp split: if_splits)
next
  case (Cons c chunks)
  show ?case
  proof (cases c)
    case (Throw m)
    with Cons.prems show ?thesis by simp
  next
    case (Chunk frag)
    show ?thesis
    proof (cases "frag = []")
      case True
      with Cons Chunk show ?thesis by simp
    next
      case False
      let ?st1 = "st\<lparr>fullText := fullText st @ frag\<rparr>"
      obtain ev1 st2 where n: "narration_step ?st1 frag = (ev1, st2)"
        by (cases "narration_step ?st1 frag")
      obtain ev2 st3 returned where f: "final_step B st2 = (ev2, st3, returned)"
        by (cases "final_step B st2")
      from narration_step_shape [OF n] have "Final p \<notin> set ev1" by auto
      with Cons.prems False n f Chunk
      have "Final p \<in> set ev2 \<or> Final p \<in> set (stream_loop B st3 chunks)"
        by (auto split: if_splits)
      then show ?thesis
        using final_step_Final [OF f] Cons.IH [of st3] by blast
    qed
  qed
qed

lemma final_step_Final_block:
  assumes "final_step B st = (ev, st', returned)" "Final p \<in> set ev"
  shows "\<exists>a b parsed.
           indexOf (fullText st) ''<FINAL_JSON>'' = Some a \<and>
           indexOf (fullText st) ''</FINAL_JSON>'' = Some b \<and> a < b \<and>
           JSON_parse B (trim (slice (fullText st) (a + length ''<FINAL_JSON>'') b)) = Some parsed \<and>
           hybrid_scoring B parsed = Inr p"
  using assms
  by (fastforce simp: final_step_def Let_def split: if_splits option.splits sum.splits)

lemma stream_loop_Final_block:
  "Final p \<in> set (stream_loop B st chunks) \<Longrightarrow>
     \<exists>frags rest a b parsed.
        chunks = map Chunk frags @ rest \<and>
        indexOf (fullText st @ concat frags) ''<FINAL_JSON>'' = Some a \<and>
        indexOf (fullText st @ concat frags) ''</FINAL_JSON>'' = Some b \<and> a < b \<and>
        JSON_parse B (trim (slice (fullText st @ concat frags) (a + length ''<FINAL_JSON>'') b)) =
          Some parsed \<and>
        hybrid_scoring B parsed = Inr p"
proof (induction chunks arbitrary: st)
  case Nil
  then show ?case by (simp split: if_splits)
next
  case (Cons c chunks)
  show ?case
  proof (cases c)
    case (Throw m)
    with Cons.prems show ?thesis by simp
  next
    case (Chunk frag)
    show ?thesis
    proof (cases "frag = []")
      case True
      with Cons.prems Chunk have "Final p \<in> set (stream_loop B st chunks)" by simp
      from Cons.IH [OF this] obtain frags rest a b parsed where
        "chunks = map Chunk frags @ rest"
        "indexOf (fullText st @ concat frags) ''<FINAL_JSON>'' = Some a"
        "indexOf (fullText st @ concat frags) ''</FINAL_JSON>'' = Some b" "a < b"
        "JSON_parse B (trim (slice (fullText st @ concat frags) (a + length ''<FINAL_JSON>'') b)) =
           Some parsed"
        "hybrid_scoring B parsed = Inr p"
        by blast
      then have "c # chunks = map Chunk (frag # frags) @ rest \<and>
        indexOf (fullText st @ concat (frag # frags)) ''<FINAL_JSON>'' = Some a \<and>
        indexOf (fullText st @ concat (frag # frags)) ''</FINAL_JSON>'' = Some b \<and> a < b \<and>
        JSON_parse B (trim (slice (fullText st @ concat (frag # frags))
                              (a + length ''<FINAL_JSON>'') b)) = Some parsed \<and>
        hybrid_scoring B parsed = Inr p"
        using True Chunk by simp
      then show ?thesis by blast
    next
      case False
      let ?st1 = "st\<lparr>fullText := fullText st @ frag\<rparr>"
      obtain ev1 st2 where n: "narration_step ?st1 frag = (ev1, st2)"
        by (cases "narration_step ?st1 frag")
      obtain ev2 st3 returned where f: "final_step B st2 = (ev2, st3, returned)"
        by (cases "final_step B st2")
      from narration_step_shape [OF n] have no: "Final p \<notin> set ev1"
        and ft: "fullText st2 = fullText st @ frag" by auto
      from Cons.prems False n f Chunk no
      have "Final p \<in> set ev2 \<or> (\<not> returned \<and> Final p \<in> set (stream_loop B st3 chunks))"
        by (auto split: if_splits)
      then show ?thesis
      proof
        assume "Final p \<in> set ev2"
        from final_step_Final_block [OF f this] obtain a b parsed where
          "indexOf (fullText st2) ''<FINAL_JSON>'' = Some a"
          "indexOf (fullText st2) ''</FINAL_JSON>'' = Some b" "a < b"
          "JSON_parse B (trim (slice (fullText st2) (a + length ''<FINAL_JSON>'') b)) = Some parsed"
          "hybrid_scoring B parsed = Inr p"
          by blast
        then have "c # chunks = map Chunk [frag] @ chunks \<and>
          indexOf (fullText st @ concat [frag]) ''<FINAL_JSON>'' = Some a \<and>
          indexOf (fullText st @ concat [frag]) ''</FINAL_JSON>'' = Some b \<and> a < b \<and>
          JSON_parse B (trim (slice (fullText st @ concat [frag])
                                (a + length ''<FINAL_JSON>'') b)) = Some parsed \<and>
          hybrid_scoring B parsed = Inr p"
          using Chunk ft by simp
        then show ?thesis by blast
      next
        assume a: "\<not> returned \<and> Final p \<in> set (stream_loop B st3 chunks)"
        with final_step_cases [OF f] have st3: "st3 = st2" by auto
        from a Cons.IH [of st3] obtain frags rest a b parsed where
          "chunks = map Chunk frags @ rest"
          "indexOf (fullText st3 @ concat frags) ''<FINAL_JSON>'' = Some a"
          "indexOf (fullText st3 @ concat frags) ''</FINAL_JSON>'' = Some b" "a < b"
          "JSON_parse B (trim (slice (fullText st3 @ concat frags) (a + length ''<FINAL_JSON>'') b)) =
             Some parsed"
          "hybrid_scoring B parsed = Inr p"
          by blast
        then have "c # chunks = map Chunk (frag # frags) @ rest \<and>
          indexOf (fullText st @ concat (frag # frags)) ''<FINAL_JSON>'' = Some a \<and>
          indexOf (fullText st @ concat (frag # frags)) ''</FINAL_JSON>'' = Some b \<and> a < b \<and>
          JSON_parse B (trim (slice (fullText st @ concat (frag # frags))
                                (a + length ''<FINAL_JSON>'') b)) = Some parsed \<and>
          hybrid_scoring B parsed = Inr p"
          using Chunk st3 ft by simp
        then show ?thesis by blast
      qed
    qed
  qed
qed

lemma indexOf_Nil_pat [simp]: "indexOf s [] = Some 0"
  by (cases s) simp_all

lemma indexOf_append_None:
  "indexOf (xs @ ys) pat = None \<Longrightarrow> indexOf xs pat = None"
proof (induction xs)
  case Nil
  then show ?case by (cases "pat = []") auto
next
  case (Cons x xs)
  from Cons.prems have np: "\<not> prefix pat (x # xs @ ys)" and r: "indexOf (xs @ ys) pat = None"
    by (auto split: if_splits)
  have "\<not> prefix pat (x # xs)"
  proof
    assume "prefix pat (x # xs)"
    then have "prefix pat ((x # xs) @ ys)" by (rule prefix_prefix)
    with np show False by simp
  qed
  with Cons.IH [OF r] show ?case by simp
qed

lemma stream_loop_no_block:
  assumes "\<not> finalSent st" "\<not> jsonStarted st"
    "indexOf (fullText st @ concat frags) ''<FINAL_JSON>'' = None"
  shows "stream_loop B st (map Chunk frags) =
           map Token (filter (\<lambda>t. t \<noteq> []) frags) @
           [Error ''Model did not return FINAL_JSON block.'']"
  using assms
proof (induction frags arbitrary: st)
  case Nil
  then show ?case by simp
next
  case (Cons frag frags)
  show ?case
  proof (cases "frag = []")
    case True
    with Cons show ?thesis by simp
  next
    case False
    let ?st1 = "st\<lparr>fullText := fullText st @ frag\<rparr>"
    from Cons.prems(3) have all: "indexOf ((fullText st @ frag) @ concat frags) ''<FINAL_JSON>'' = None"
      by simp
    then have none: "indexOf (fullText st @ frag) ''<FINAL_JSON>'' = None"
      by (rule indexOf_append_None)
    have n: "narration_step ?st1 frag = ([Token frag], ?st1)"
      using Cons.prems(1,2) none by (simp add: narration_step_def)
    have f: "final_step B ?st1 = ([], ?st1, False)"
      using none by (simp add: final_step_def)
    have "stream_loop B ?st1 (map Chunk frags) =
            map Token (filter (\<lambda>t. t \<noteq> []) frags) @
            [Error ''Model did not return FINAL_JSON block.'']"
      using Cons.prems(1,2) all by (intro Cons.IH) simp_all
    then show ?thesis using False n f by simp
  qed
qed


lemma filter_update_other:
  "k \<in> K \<Longrightarrow> filter (\<lambda>kv. fst kv \<notin> K) (AList.update k x kvs) = filter (\<lambda>kv. fst kv \<notin> K) kvs"
  by (induction kvs) auto

lemma hybrid_scoring_other_fields:
  assumes "hybrid_scoring B parsed = Inr p"
  shows "other_fields p = other_fields parsed"
proof (cases parsed)
  case (JObj kvs)
  let ?K = "{''severity_score'', ''business_impact_score'', ''confidence''}"
  have m: "''severity_score'' \<in> ?K" "''business_impact_score'' \<in> ?K" "''confidence'' \<in> ?K"
    by simp_all
  from hybrid_scoring_JObj [OF assms [unfolded JObj]]
  obtain x y z where
    "p = JObj (AList.update ''confidence'' x
                (AList.update ''business_impact_score'' y
                  (AList.update ''severity_score'' z kvs)))"
    by blast
  then show ?thesis
    unfolding JObj other_fields_def
    by (simp only: jsval.case filter_update_other [OF m(1)] filter_update_other [OF m(2)]
        filter_update_other [OF m(3)])
next
  case (JArr xs)
  with assms show ?thesis
    by (auto simp: hybrid_scoring_def then_do_eq_Inr set_prop_def Let_def)
qed (use assms in \<open>auto simp: hybrid_scoring_def then_do_eq_Inr set_prop_def get_prop_def Let_def\<close>)

lemma final_step_block:
  assumes "\<not> finalSent st" "indexOf (fullText st) ''<FINAL_JSON>'' = Some a"
    "indexOf (fullText st) ''</FINAL_JSON>'' = Some b" "a < b"
    "JSON_parse B (trim (slice (fullText st) (a + length ''<FINAL_JSON>'') b)) = Some parsed"
    "hybrid_scoring B parsed = Inr p"
  shows "final_step B st = ([Final p], st\<lparr>finalSent := True, fullText := []\<rparr>, True)"
  using assms by (simp add: final_step_def)

lemma final_step_no_open:
  assumes "indexOf (fullText st) ''<FINAL_JSON>'' = None"
  shows "final_step B st = ([], st, False)"
  using assms by (simp add: final_step_def)

lemma stream_loop_Chunk:
  assumes "frag \<noteq> []" "narration_step (st\<lparr>fullText := fullText st @ frag\<rparr>) frag = (ev1, st2)"
    "final_step B st2 = (ev2, st3, returned)"
  shows "stream_loop B st (Chunk frag # chunks) =
     (if returned then ev1 @ ev2 else ev1 @ ev2 @ stream_loop B st3 chunks)"
  using assms by simp

lemma safeInt_JUndefined [simp]: "safeInt B JUndefined = Inr 0"
  by (simp add: safeInt_def js_Number_def)

lemma safeProb_JUndefined [simp]: "safeProb B JUndefined = Inr 0"
  by (simp add: safeProb_def js_Number_def)

lemma safeInt_Fin [simp]: "safeInt B (JNum (Fin q)) = Inr (clamp (Math_round q) 0 100)"
  by (simp add: safeInt_def js_Number_def)

lemma stream_scores_empty [simp]:
  "calculateSeverityFromServices_stream [] = 0"
  "calculateBlastRadius_stream [] = 0"
  "calculateImpactFromPropagation_stream (JObj [(''nodes'', JArr []), (''edges'', JArr [])]) = 0"
  by (simp_all add: calculateSeverityFromServices_stream_def calculateBlastRadius_stream_def
      calculateImpactFromPropagation_stream_def clamp_def get_opt_def isArray_def elements_def)

lemma stream_inputs_absent:
  "map_of kvs ''services'' = None \<Longrightarrow> stream_services (JObj kvs) = []"
  "map_of kvs ''propagation'' = None \<Longrightarrow>
     stream_propagation (JObj kvs) = JObj [(''nodes'', JArr []), (''edges'', JArr [])]"
  by (simp_all add: stream_services_def stream_propagation_def get_opt_def elements_def truthy_def)

lemma hybrid_scoring_severity_90:
  "hybrid_scoring B (JObj [(''severity_score'', JNum (Fin 90))]) =
     Inr (JObj [(''severity_score'', JNum (Fin 90)), (''business_impact_score'', JNum (Fin 0)),
                (''confidence'', JNum (Fin 0))])"
proof -
  have a: "safeInt B (get_opt (JObj [(''severity_score'', JNum (Fin 90))]) ''severity_score'') = Inr 90"
    by (simp add: get_opt_def clamp_def)
  have b: "safeInt B (get_opt (JObj [(''severity_score'', JNum (Fin 90))]) ''business_impact_score'') = Inr 0"
    by (simp add: get_opt_def)
  have c: "safeProb B (get_opt (JObj [(''severity_score'', JNum (Fin 90))]) ''confidence'') = Inr 0"
    by (simp add: get_opt_def)
  show ?thesis
    unfolding hybrid_scoring_JObj_eq [OF a b c]
    by (simp add: stream_inputs_absent clamp_def)
qed

section \<open>Properties of the incremental parser\<close>

text \<open>
  C1.  The specification says that the parser emits every span of narration exactly once, however
  the fragments split the delimiter, and that the fragments \<open>"investigating..."\<close>,
  \<open>"<FINAL_"\<close>, \<open>"JSON>{"severity_score":90}</FINAL_JSON>"\<close> give one narration event and
  one final event.  The run of the route on these fragments: \<open>lastNarrationSentIndex\<close> is
  never advanced, so the narration before the delimiter is sent a second time when the
  delimiter is complete, and the part of the delimiter that came alone is sent as
  narration.  The run gives three narration events and the final event with severity 90.
\<close>

theorem C1_spec_example_run:
  assumes \<open>JSON_parse B ''{"severity_score":90}'' = Some (JObj [(''severity_score'', JNum (Fin 90))])\<close>
  shows \<open>stream_start B [Chunk ''investigating...'', Chunk ''<FINAL_'',
                         Chunk ''JSON>{"severity_score":90}</FINAL_JSON>''] =
          [Token ''investigating...'', Token ''<FINAL_'', Token ''investigating...'',
           Final (JObj [(''severity_score'', JNum (Fin 90)),
                        (''business_impact_score'', JNum (Fin 0)),
                        (''confidence'', JNum (Fin 0))])]\<close>
proof -
  let ?s1 = "\<lparr>fullText = ''investigating...'', finalSent = False, jsonStarted = False,
              lastNarrationSentIndex = 0\<rparr>"
  let ?s2 = "\<lparr>fullText = ''investigating...<FINAL_'', finalSent = False, jsonStarted = False,
              lastNarrationSentIndex = 0\<rparr>"
  let ?s3 = \<open>\<lparr>fullText = ''investigating...<FINAL_JSON>{"severity_score":90}</FINAL_JSON>'',
              finalSent = False, jsonStarted = True, lastNarrationSentIndex = 0\<rparr>\<close>
  have n1: "narration_step (initial_state\<lparr>fullText := fullText initial_state @ ''investigating...''\<rparr>)
              ''investigating...'' = ([Token ''investigating...''], ?s1)"
    by code_simp
  have n2: "narration_step (?s1\<lparr>fullText := fullText ?s1 @ ''<FINAL_''\<rparr>) ''<FINAL_'' =
              ([Token ''<FINAL_''], ?s2)"
    by code_simp
  have n3: \<open>narration_step
              (?s2\<lparr>fullText := fullText ?s2 @ ''JSON>{"severity_score":90}</FINAL_JSON>''\<rparr>)
              ''JSON>{"severity_score":90}</FINAL_JSON>'' = ([Token ''investigating...''], ?s3)\<close>
    by code_simp
  have i1: "indexOf (fullText ?s1) ''<FINAL_JSON>'' = None" by code_simp
  have i2: "indexOf (fullText ?s2) ''<FINAL_JSON>'' = None" by code_simp
  have i3: "indexOf (fullText ?s3) ''<FINAL_JSON>'' = Some 16" by code_simp
  have i4: "indexOf (fullText ?s3) ''</FINAL_JSON>'' = Some 49" by code_simp
  have j: \<open>trim (slice (fullText ?s3) (16 + length ''<FINAL_JSON>'') 49) = ''{"severity_score":90}''\<close>
    by code_simp
  have f3: "final_step B ?s3 =
              ([Final (JObj [(''severity_score'', JNum (Fin 90)),
                             (''business_impact_score'', JNum (Fin 0)),
                             (''confidence'', JNum (Fin 0))])],
               ?s3\<lparr>finalSent := True, fullText := []\<rparr>, True)"
    by (rule final_step_block [OF _ i3 i4 _ _ hybrid_scoring_severity_90])
       (simp_all only: j assms, simp_all)
  show ?thesis
    unfolding stream_start_def
    by (simp only: stream_loop_Chunk [OF _ n1 final_step_no_open [OF i1]]
        stream_loop_Chunk [OF _ n2 final_step_no_open [OF i2]]
        stream_loop_Chunk [OF _ n3 f3] list.simps if_True if_False append.simps simp_thms)
qed

theorem C1_spec_example_run_witness:
  \<open>JSON_parse sample_builtins ''{"severity_score":90}'' =
     Some (JObj [(''severity_score'', JNum (Fin 90))]) \<and>
   stream_start sample_builtins [Chunk ''investigating...'', Chunk ''<FINAL_'',
                                 Chunk ''JSON>{"severity_score":90}</FINAL_JSON>''] =
     [Token ''investigating...'', Token ''<FINAL_'', Token ''investigating...'',
      Final (JObj [(''severity_score'', JNum (Fin 90)),
                   (''business_impact_score'', JNum (Fin 0)),
                   (''confidence'', JNum (Fin 0))])]\<close>
proof -
  have h: \<open>JSON_parse sample_builtins ''{"severity_score":90}'' =
            Some (JObj [(''severity_score'', JNum (Fin 90))])\<close>
    by (simp add: sample_builtins_def)
  from h C1_spec_example_run [OF h] show ?thesis by (rule conjI)
qed

text \<open>
  C5.  For every upstream (fragments and a possible failure of the transport) the events of
  one analysis are narration events followed by one terminal event, \<open>final\<close> or \<open>error\<close>,
  and nothing after it.  When the fragments together never contain \<open><FINAL_JSON>\<close> and
  the source ends, the events are the fragments that are not empty, as narration, and then
  the one error event for the missing block; there is no final event.
\<close>

theorem C5_one_terminal_event_last:
  "(\<exists>ts t. stream_start B chunks = map Token ts @ [t] \<and> is_terminal t) \<and>
   (indexOf (concat frags) ''<FINAL_JSON>'' = None \<longrightarrow>
      stream_start B (map Chunk frags) =
        map Token (filter (\<lambda>t. t \<noteq> []) frags) @
        [Error ''Model did not return FINAL_JSON block.''])"
proof
  show "\<exists>ts t. stream_start B chunks = map Token ts @ [t] \<and> is_terminal t"
    unfolding stream_start_def by (rule stream_loop_shape) (simp add: initial_state_def)
  show "indexOf (concat frags) ''<FINAL_JSON>'' = None \<longrightarrow>
      stream_start B (map Chunk frags) =
        map Token (filter (\<lambda>t. t \<noteq> []) frags) @
        [Error ''Model did not return FINAL_JSON block.'']"
    unfolding stream_start_def
    by (intro impI stream_loop_no_block) (simp_all add: initial_state_def)
qed

theorem C5_one_terminal_event_last_witness:
  "indexOf (concat [''abc'', [], ''<FINAL_JS'']) ''<FINAL_JSON>'' = None \<and>
   stream_start sample_builtins (map Chunk [''abc'', [], ''<FINAL_JS'']) =
     [Token ''abc'', Token ''<FINAL_JS'', Error ''Model did not return FINAL_JSON block.'']"
proof -
  have h: "indexOf (concat [''abc'', [], ''<FINAL_JS'']) ''<FINAL_JSON>'' = None"
    by code_simp
  from C5_one_terminal_event_last [of sample_builtins "[]" "[''abc'', [], ''<FINAL_JS'']"] h
  show ?thesis by simp
qed

text \<open>
  C10.  A final event comes after fragments whose text holds the opening delimiter before
  the closing one; its payload is the hybrid scoring of the value that \<open>JSON.parse\<close>
  returns for the trimmed text between the two, and apart from \<open>severity_score\<close>,
  \<open>business_impact_score\<close> and \<open>confidence\<close> its fields are the fields of that value, with
  the same values in the same order: nothing is capped, sorted, coerced or synthesised.
\<close>

theorem C10_final_event_other_fields_unchanged:
  assumes "Final p \<in> set (stream_start B chunks)"
  shows "\<exists>frags rest a b parsed.
           chunks = map Chunk frags @ rest \<and>
           indexOf (concat frags) ''<FINAL_JSON>'' = Some a \<and>
           indexOf (concat frags) ''</FINAL_JSON>'' = Some b \<and> a < b \<and>
           JSON_parse B (trim (slice (concat frags) (a + length ''<FINAL_JSON>'') b)) =
             Some parsed \<and>
           hybrid_scoring B parsed = Inr p \<and>
           other_fields p = other_fields parsed"
proof -
  from stream_loop_Final_block [OF assms [unfolded stream_start_def]]
  obtain frags rest a b parsed where
    "chunks = map Chunk frags @ rest"
    "indexOf (concat frags) ''<FINAL_JSON>'' = Some a"
    "indexOf (concat frags) ''</FINAL_JSON>'' = Some b" "a < b"
    "JSON_parse B (trim (slice (concat frags) (a + length ''<FINAL_JSON>'') b)) = Some parsed"
    and h: "hybrid_scoring B parsed = Inr p"
    unfolding initial_state_def by auto
  with hybrid_scoring_other_fields [OF h] show ?thesis by blast
qed

theorem C10_final_event_other_fields_unchanged_witness:
  \<open>Final (JObj [(''incident_type'', JStr []),
                (''services'', JArr [JObj [(''status'', JStr ''exploded'')]]),
                (''severity_score'', JNum (Fin 0)),
                (''business_impact_score'', JNum (Fin 0)),
                (''confidence'', JNum (Fin 0))])
     \<in> set (stream_start sample_builtins
              [Chunk ''checking '',
               Chunk ''<FINAL_JSON>{"incident_type":"","services":[{"status":"exploded"}]}</FINAL_JSON>'']) \<and>
   other_fields (JObj [(''incident_type'', JStr []),
                       (''services'', JArr [JObj [(''status'', JStr ''exploded'')]]),
                       (''severity_score'', JNum (Fin 0)),
                       (''business_impact_score'', JNum (Fin 0)),
                       (''confidence'', JNum (Fin 0))]) =
     JObj [(''incident_type'', JStr []),
           (''services'', JArr [JObj [(''status'', JStr ''exploded'')]])] \<and>
   (\<exists>frags rest a b parsed.
      [Chunk ''checking '',
       Chunk ''<FINAL_JSON>{"incident_type":"","services":[{"status":"exploded"}]}</FINAL_JSON>''] =
        map Chunk frags @ rest \<and>
      indexOf (concat frags) ''<FINAL_JSON>'' = Some a \<and>
      indexOf (concat frags) ''</FINAL_JSON>'' = Some b \<and> a < b \<and>
      JSON_parse sample_builtins (trim (slice (concat frags) (a + length ''<FINAL_JSON>'') b)) =
        Some parsed \<and>
      hybrid_scoring sample_builtins parsed =
        Inr (JObj [(''incident_type'', JStr []),
                   (''services'', JArr [JObj [(''status'', JStr ''exploded'')]]),
                   (''severity_score'', JNum (Fin 0)),
                   (''business_impact_score'', JNum (Fin 0)),
                   (''confidence'', JNum (Fin 0))]) \<and>
      other_fields (JObj [(''incident_type'', JStr []),
                          (''services'', JArr [JObj [(''status'', JStr ''exploded'')]]),
                          (''severity_score'', JNum (Fin 0)),
                          (''business_impact_score'', JNum (Fin 0)),
                          (''confidence'', JNum (Fin 0))]) = other_fields parsed)\<close>
proof -
  have h: \<open>Final (JObj [(''incident_type'', JStr []),
                (''services'', JArr [JObj [(''status'', JStr ''exploded'')]]),
                (''severity_score'', JNum (Fin 0)),
                (''business_impact_score'', JNum (Fin 0)),
                (''confidence'', JNum (Fin 0))])
     \<in> set (stream_start sample_builtins
              [Chunk ''checking '',
               Chunk ''<FINAL_JSON>{"incident_type":"","services":[{"status":"exploded"}]}</FINAL_JSON>''])\<close>
    by code_simp
  have o: "other_fields (JObj [(''incident_type'', JStr []),
                       (''services'', JArr [JObj [(''status'', JStr ''exploded'')]]),
                       (''severity_score'', JNum (Fin 0)),
                       (''business_impact_score'', JNum (Fin 0)),
                       (''confidence'', JNum (Fin 0))]) =
     JObj [(''incident_type'', JStr []),
           (''services'', JArr [JObj [(''status'', JStr ''exploded'')]])]"
    by code_simp
  from h o C10_final_event_other_fields_unchanged [OF h] show ?thesis by (intro conjI)
qed

section \<open>Properties of the execution trigger\<close>

text \<open>
  C9.  A request whose service identifier is not one of \<open>api-gateway\<close>, \<open>primary-db\<close>,
  \<open>cache\<close> is answered with status 400 and no call to the webhook; whenever the webhook
  has been called, the identifier of the request is in the allow-list and it is the one
  call for that service.
\<close>

theorem C9_allow_list_guards_webhook:
  "(get_opt b ''service'' \<notin> {JStr ''api-gateway'', JStr ''primary-db'', JStr ''cache''} \<longrightarrow>
      POST_execute (Inr b) fetch = ([], ExecuteError 400 ''Invalid service'')) \<and>
   (fst (POST_execute body fetch) \<noteq> [] \<longrightarrow>
      (\<exists>b. body = Inr b \<and>
           get_opt b ''service'' \<in> {JStr ''api-gateway'', JStr ''primary-db'', JStr ''cache''} \<and>
           fst (POST_execute body fetch) =
             [\<lparr>action = ''scale_up'', target = get_opt b ''service'',
               triggeredBy = ''AutoOps AI''\<rparr>]))"
  by (cases body) (auto simp: POST_execute_def Let_def split: sum.splits)

theorem C9_allow_list_guards_webhook_witness:
  "get_opt (JObj [(''service'', JStr ''database'')]) ''service''
     \<notin> {JStr ''api-gateway'', JStr ''primary-db'', JStr ''cache''} \<and>
   POST_execute (Inr (JObj [(''service'', JStr ''database'')])) (\<lambda>c. Inr 200) =
     ([], ExecuteError 400 ''Invalid service'') \<and>
   fst (POST_execute (Inr (JObj [(''service'', JStr ''cache'')])) (\<lambda>c. Inr 200)) \<noteq> [] \<and>
   (\<exists>b. (Inr (JObj [(''service'', JStr ''cache'')]) :: string option + jsval) = Inr b \<and>
        get_opt b ''service'' \<in> {JStr ''api-gateway'', JStr ''primary-db'', JStr ''cache''} \<and>
        fst (POST_execute (Inr (JObj [(''service'', JStr ''cache'')])) (\<lambda>c. Inr 200)) =
          [\<lparr>action = ''scale_up'', target = get_opt b ''service'',
            triggeredBy = ''AutoOps AI''\<rparr>])"
proof -
  have h1: "get_opt (JObj [(''service'', JStr ''database'')]) ''service''
     \<notin> {JStr ''api-gateway'', JStr ''primary-db'', JStr ''cache''}"
    by (simp add: get_opt_def)
  have h2: "fst (POST_execute (Inr (JObj [(''service'', JStr ''cache'')])) (\<lambda>c. Inr 200)) \<noteq> []"
    by (simp add: POST_execute_def get_opt_def Let_def)
  from C9_allow_list_guards_webhook
         [of "JObj [(''service'', JStr ''database'')]" "\<lambda>c. Inr 200"
             "Inr (JObj [(''service'', JStr ''cache'')])"] h1 h2
  show ?thesis by blast
qed

section \<open>Properties of the normalizer and the scoring\<close>

lemma toInt01to100_own_toString:
  "toInt01to100 B (JObj [(''toString'', JNull)]) fallback = Inl TypeError"
  by (simp add: toInt01to100_def toNumber_def js_Number_def)

text \<open>The coercion of a primitive value returns.\<close>

lemma toInt01to100_primitive:
  assumes "\<not> isArray v" "\<forall>kvs. v \<noteq> JObj kvs"
  shows "\<exists>x. toInt01to100 B v fallback = Inr x"
  using assms
  by (cases v) (simp_all add: toInt01to100_def toNumber_def js_Number_def isArray_def)

text \<open>
  C7.  The specification says that the coercion of a score never throws.  \<open>Number(v)\<close> throws a
  TypeError on an object with an own \<open>toString\<close> property, and on an array that holds
  one: \<open>toNumber\<close> tests the result of \<open>Number(v)\<close> but does not catch its exception.  The
  normalizer throws on a payload with such a score.  (Where the coercion returns, the
  score is an integer between 0 and 100, \<open>toInt01to100_range\<close>, and it returns on
  every primitive value, \<open>toInt01to100_primitive\<close>.)
\<close>

theorem C7_own_toString_makes_coercion_throw:
  "toInt01to100 B (JObj [(''toString'', JNull)]) 0 = Inl TypeError \<and>
   normalize B ctx (JObj [(''severity_score'', JObj [(''toString'', JNull)])]) = Inl TypeError \<and>
   normalize B ctx (JObj [(''business_impact_score'', JArr [JObj [(''toString'', JBool True)]])]) =
     Inl TypeError"
  by (simp add: normalize_def get_opt_def toInt01to100_def toNumber_def js_Number_def)



lemma trim_Nil [simp]: "trim [] = []"
  by (simp add: trim_def)

lemma stream_severity_two_down:
  assumes "map (\<lambda>s. get_opt s ''status'') svcs = [JStr ''down'', JStr ''down'', JStr ''healthy'']"
  shows "calculateSeverityFromServices_stream svcs = 70"
proof -
  from assms obtain a b c where svcs: "svcs = [a, b, c]"
    and st: "get_opt a ''status'' = JStr ''down''" "get_opt b ''status'' = JStr ''down''"
            "get_opt c ''status'' = JStr ''healthy''"
    by (auto simp: map_eq_Cons_conv)
  show ?thesis
    unfolding svcs calculateSeverityFromServices_stream_def status_points_def
    by (simp add: st clamp_def)
qed

lemma sync_severity_two_down:
  assumes "map status svcs = [Down, Down, Healthy]"
  shows "calculateSeverityFromServices svcs = 70"
proof -
  from assms obtain a b c where svcs: "svcs = [a, b, c]"
    and st: "status a = Down" "status b = Down" "status c = Healthy"
    by (auto simp: map_eq_Cons_conv)
  show ?thesis
    unfolding svcs calculateSeverityFromServices_def
    by (simp add: st clamp_def)
qed

lemma clamp_max_ge: "d \<le> 100 \<Longrightarrow> 0 \<le> d \<Longrightarrow> d \<le> clamp (max ai d) 0 100"
  by (auto simp: clamp_def)

subsection \<open>The three payloads through the two routes\<close>

lemma normalize_payload_two_down:
  "\<exists>R. normalize sample_builtins [] payload_two_down = Inr R \<and>
        severity_score R = 70 \<and> business_impact_score R = 23 \<and> confidence R = 0 \<and>
        map status (services R) = [Down, Down, Healthy] \<and>
        length (nodes (propagation R)) = 3 \<and> length (edges (propagation R)) = 2"
proof -
  let ?svcs = "[\<lparr>s_name = ''web'', status = Down, signals = [], suspected_components = []\<rparr>,
        \<lparr>s_name = ''db'', status = Down, signals = [], suspected_components = []\<rparr>,
        \<lparr>s_name = ''cache'', status = Healthy, signals = [], suspected_components = []\<rparr>]"
  let ?pg = "\<lparr>nodes = [\<lparr>n_id = ''web'', n_label = ''web''\<rparr>, \<lparr>n_id = ''db'', n_label = ''db''\<rparr>, \<lparr>n_id = ''cache'', n_label = ''cache''\<rparr>],
               edges = [\<lparr>e_from = ''web'', e_to = ''db'', e_label = ''depends_on''\<rparr>, \<lparr>e_from = ''web'', e_to = ''cache'', e_label = ''uses_cache''\<rparr>]\<rparr>"
  have 1: "toInt01to100 sample_builtins (get_opt payload_two_down ''severity_score'') 0 = Inr 0"
    unfolding payload_two_down_def by code_simp
  have 2: "toInt01to100 sample_builtins (get_opt payload_two_down ''business_impact_score'') 0 = Inr 0"
    unfolding payload_two_down_def by code_simp
  have 3: "toNumber sample_builtins (get_opt payload_two_down ''estimated_recovery_time_minutes'') 0 = Inr 0"
    unfolding payload_two_down_def by code_simp
  have 4: "toProb01 sample_builtins (get_opt payload_two_down ''confidence'') 0 = Inr 0"
    unfolding payload_two_down_def by code_simp
  have 5: "normalize_causes sample_builtins payload_two_down = Inr []"
    unfolding payload_two_down_def by code_simp
  have 6: "toStringArray sample_builtins (get_opt payload_two_down ''recommended_runbook_steps'') 10 = Inr []"
    unfolding payload_two_down_def by code_simp
  have 7: "normalize_services sample_builtins payload_two_down = Inr ?svcs"
    unfolding payload_two_down_def by code_simp
  have 8: "dedup_by s_name {}
             (if length ?svcs < 3
              then buildFallbackServices
                     (toStringSafe (get_opt payload_two_down ''incident_type'') ''Unknown Incident'')
              else ?svcs) = ?svcs"
    unfolding payload_two_down_def by code_simp
  have 9: "(case normalize_propagation payload_two_down of
              Some p \<Rightarrow> p
            | None \<Rightarrow> buildPropagationFromServices ?svcs) = ?pg"
    unfolding payload_two_down_def by code_simp
  note N = normalize_eq [OF 1 2 3 4 5 6 7 8 9, of "[]"]
  have sev: "clamp (Math_round (max 0 (calculateSeverityFromServices ?svcs))) 0 100 = 70"
    by code_simp
  have imp: "clamp (Math_round (impact_blend 0 (calculateImpactFromPropagation ?pg)
                                  (calculateBlastRadius ?svcs))) 0 100 = 23"
    by code_simp
  have st: "map status ?svcs = [Down, Down, Healthy]"
    by simp
  have len: "length (nodes ?pg) = 3" "length (edges ?pg) = 2"
    by simp_all
  show ?thesis
    by (rule exI, rule conjI, rule N) (simp add: sev imp st len)
qed

lemma normalize_payload_one_down:
  "\<exists>R. normalize sample_builtins [] payload_one_down = Inr R \<and>
        severity_score R = 45 \<and> business_impact_score R = 16 \<and> confidence R = 9 / 10 \<and>
        map status (services R) = [Down, Healthy, Healthy] \<and>
        length (nodes (propagation R)) = 3 \<and> length (edges (propagation R)) = 2"
proof -
  let ?svcs = "[\<lparr>s_name = ''web'', status = Down, signals = [], suspected_components = []\<rparr>,
        \<lparr>s_name = ''db'', status = Healthy, signals = [], suspected_components = []\<rparr>,
        \<lparr>s_name = ''cache'', status = Healthy, signals = [], suspected_components = []\<rparr>]"
  let ?pg = "\<lparr>nodes = [\<lparr>n_id = ''web'', n_label = ''web''\<rparr>, \<lparr>n_id = ''db'', n_label = ''db''\<rparr>, \<lparr>n_id = ''cache'', n_label = ''cache''\<rparr>],
               edges = [\<lparr>e_from = ''web'', e_to = ''db'', e_label = ''depends_on''\<rparr>, \<lparr>e_from = ''web'', e_to = ''cache'', e_label = ''uses_cache''\<rparr>]\<rparr>"
  have 1: "toInt01to100 sample_builtins (get_opt payload_one_down ''severity_score'') 0 = Inr 0"
    unfolding payload_one_down_def by code_simp
  have 2: "toInt01to100 sample_builtins (get_opt payload_one_down ''business_impact_score'') 0 = Inr 0"
    unfolding payload_one_down_def by code_simp
  have 3: "toNumber sample_builtins (get_opt payload_one_down ''estimated_recovery_time_minutes'') 0 = Inr 0"
    unfolding payload_one_down_def by code_simp
  have 4: "toProb01 sample_builtins (get_opt payload_one_down ''confidence'') 0 = Inr (9 / 10)"
    unfolding payload_one_down_def by code_simp
  have 5: "normalize_causes sample_builtins payload_one_down = Inr []"
    unfolding payload_one_down_def by code_simp
  have 6: "toStringArray sample_builtins (get_opt payload_one_down ''recommended_runbook_steps'') 10 = Inr []"
    unfolding payload_one_down_def by code_simp
  have 7: "normalize_services sample_builtins payload_one_down = Inr ?svcs"
    unfolding payload_one_down_def by code_simp
  have 8: "dedup_by s_name {}
             (if length ?svcs < 3
              then buildFallbackServices
                     (toStringSafe (get_opt payload_one_down ''incident_type'') ''Unknown Incident'')
              else ?svcs) = ?svcs"
    unfolding payload_one_down_def by code_simp
  have 9: "(case normalize_propagation payload_one_down of
              Some p \<Rightarrow> p
            | None \<Rightarrow> buildPropagationFromServices ?svcs) = ?pg"
    unfolding payload_one_down_def by code_simp
  note N = normalize_eq [OF 1 2 3 4 5 6 7 8 9, of "[]"]
  have sev: "clamp (Math_round (max 0 (calculateSeverityFromServices ?svcs))) 0 100 = 45"
    by code_simp
  have imp: "clamp (Math_round (impact_blend 0 (calculateImpactFromPropagation ?pg)
                                  (calculateBlastRadius ?svcs))) 0 100 = 16"
    by code_simp
  have st: "map status ?svcs = [Down, Healthy, Healthy]"
    by simp
  have len: "length (nodes ?pg) = 3" "length (edges ?pg) = 2"
    by simp_all
  show ?thesis
    by (rule exI, rule conjI, rule N) (simp add: sev imp st len)
qed

lemma normalize_payload_tie:
  "\<exists>R. normalize sample_builtins [] payload_tie = Inr R \<and>
        severity_score R = 10 \<and> business_impact_score R = 14 \<and> confidence R = 0 \<and>
        map status (services R) = [Degraded, Healthy, Healthy, Healthy] \<and>
        length (nodes (propagation R)) = 3 \<and> length (edges (propagation R)) = 1"
proof -
  let ?svcs = "[\<lparr>s_name = ''web'', status = Degraded, signals = [], suspected_components = []\<rparr>,
        \<lparr>s_name = ''db'', status = Healthy, signals = [], suspected_components = []\<rparr>,
        \<lparr>s_name = ''cache'', status = Healthy, signals = [], suspected_components = []\<rparr>,
        \<lparr>s_name = ''queue'', status = Healthy, signals = [], suspected_components = []\<rparr>]"
  let ?pg = "\<lparr>nodes = [\<lparr>n_id = ''web'', n_label = ''web''\<rparr>, \<lparr>n_id = ''db'', n_label = ''db''\<rparr>, \<lparr>n_id = ''cache'', n_label = ''cache''\<rparr>],
               edges = [\<lparr>e_from = ''web'', e_to = ''db'', e_label = ''depends_on''\<rparr>]\<rparr>"
  have 1: "toInt01to100 sample_builtins (get_opt payload_tie ''severity_score'') 0 = Inr 0"
    unfolding payload_tie_def by code_simp
  have 2: "toInt01to100 sample_builtins (get_opt payload_tie ''business_impact_score'') 0 = Inr 10"
    unfolding payload_tie_def by code_simp
  have 3: "toNumber sample_builtins (get_opt payload_tie ''estimated_recovery_time_minutes'') 0 = Inr 0"
    unfolding payload_tie_def by code_simp
  have 4: "toProb01 sample_builtins (get_opt payload_tie ''confidence'') 0 = Inr 0"
    unfolding payload_tie_def by code_simp
  have 5: "normalize_causes sample_builtins payload_tie = Inr []"
    unfolding payload_tie_def by code_simp
  have 6: "toStringArray sample_builtins (get_opt payload_tie ''recommended_runbook_steps'') 10 = Inr []"
    unfolding payload_tie_def by code_simp
  have 7: "normalize_services sample_builtins payload_tie = Inr ?svcs"
    unfolding payload_tie_def by code_simp
  have 8: "dedup_by s_name {}
             (if length ?svcs < 3
              then buildFallbackServices
                     (toStringSafe (get_opt payload_tie ''incident_type'') ''Unknown Incident'')
              else ?svcs) = ?svcs"
    unfolding payload_tie_def by code_simp
  have 9: "(case normalize_propagation payload_tie of
              Some p \<Rightarrow> p
            | None \<Rightarrow> buildPropagationFromServices ?svcs) = ?pg"
    unfolding payload_tie_def by code_simp
  note N = normalize_eq [OF 1 2 3 4 5 6 7 8 9, of "[]"]
  have sev: "clamp (Math_round (max 0 (calculateSeverityFromServices ?svcs))) 0 100 = 10"
    by code_simp
  have imp: "clamp (Math_round (impact_blend 10 (calculateImpactFromPropagation ?pg)
                                  (calculateBlastRadius ?svcs))) 0 100 = 14"
    by code_simp
  have st: "map status ?svcs = [Degraded, Healthy, Healthy, Healthy]"
    by simp
  have len: "length (nodes ?pg) = 3" "length (edges ?pg) = 1"
    by simp_all
  show ?thesis
    by (rule exI, rule conjI, rule N) (simp add: sev imp st len)
qed

lemma hybrid_scoring_payload_two_down:
  "hybrid_scoring sample_builtins payload_two_down =
     Inr (JObj [(''severity_score'', JNum (Fin 70)),
                (''services'',
                   JArr [JObj [(''name'', JStr ''web''), (''status'', JStr ''down'')],
                              JObj [(''name'', JStr ''db''), (''status'', JStr ''down'')],
                              JObj [(''name'', JStr ''cache''), (''status'', JStr ''healthy'')]]),
                (''business_impact_score'', JNum (Fin 13)),
                (''confidence'', JNum (Fin 0))])"
proof -
  let ?kvs = "[(''severity_score'', JNum (Fin 0)),
           (''services'',
              JArr [JObj [(''name'', JStr ''web''), (''status'', JStr ''down'')],
                    JObj [(''name'', JStr ''db''), (''status'', JStr ''down'')],
                    JObj [(''name'', JStr ''cache''), (''status'', JStr ''healthy'')]])]"
  have 1: "safeInt sample_builtins (get_opt (JObj ?kvs) ''severity_score'') = Inr 0"
    by code_simp
  have 2: "safeInt sample_builtins (get_opt (JObj ?kvs) ''business_impact_score'') = Inr 0"
    by code_simp
  have 3: "safeProb sample_builtins (get_opt (JObj ?kvs) ''confidence'') = Inr 0"
    by code_simp
  have 4: "JObj
            (AList.update ''confidence'' (JNum (Fin 0))
              (AList.update ''business_impact_score''
                 (JNum (Fin (clamp (Math_round
                    (impact_blend 0
                       (calculateImpactFromPropagation_stream (stream_propagation (JObj ?kvs)))
                       (calculateBlastRadius_stream (stream_services (JObj ?kvs))))) 0 100)))
              (AList.update ''severity_score''
                 (JNum (Fin (clamp (max 0
                    (calculateSeverityFromServices_stream (stream_services (JObj ?kvs))))
                    0 100)))
                 ?kvs))) =
           JObj [(''severity_score'', JNum (Fin 70)),
                (''services'',
                   JArr [JObj [(''name'', JStr ''web''), (''status'', JStr ''down'')],
                              JObj [(''name'', JStr ''db''), (''status'', JStr ''down'')],
                              JObj [(''name'', JStr ''cache''), (''status'', JStr ''healthy'')]]),
                (''business_impact_score'', JNum (Fin 13)),
                (''confidence'', JNum (Fin 0))]"
    by code_simp
  show ?thesis
    unfolding payload_two_down_def hybrid_scoring_JObj_eq [OF 1 2 3] 4 ..
qed

lemma hybrid_scoring_payload_one_down:
  "hybrid_scoring sample_builtins payload_one_down =
     Inr (JObj [(''confidence'', JNum (Fin (9 / 10))),
                (''services'',
              JArr [JObj [(''name'', JStr ''web''), (''status'', JStr ''down'')],
                    JObj [(''name'', JStr ''db''), (''status'', JStr ''healthy'')],
                    JObj [(''name'', JStr ''cache''), (''status'', JStr ''healthy'')]]),
                (''severity_score'', JNum (Fin 35)),
                (''business_impact_score'', JNum (Fin 7))])"
proof -
  let ?kvs = "[(''confidence'', JNum (Fin (9 / 10))),
           (''services'',
              JArr [JObj [(''name'', JStr ''web''), (''status'', JStr ''down'')],
                    JObj [(''name'', JStr ''db''), (''status'', JStr ''healthy'')],
                    JObj [(''name'', JStr ''cache''), (''status'', JStr ''healthy'')]])]"
  have 1: "safeInt sample_builtins (get_opt (JObj ?kvs) ''severity_score'') = Inr 0"
    by code_simp
  have 2: "safeInt sample_builtins (get_opt (JObj ?kvs) ''business_impact_score'') = Inr 0"
    by code_simp
  have 3: "safeProb sample_builtins (get_opt (JObj ?kvs) ''confidence'') = Inr (9 / 10)"
    by code_simp
  have 4: "JObj
            (AList.update ''confidence'' (JNum (Fin (9 / 10)))
              (AList.update ''business_impact_score''
                 (JNum (Fin (clamp (Math_round
                    (impact_blend 0
                       (calculateImpactFromPropagation_stream (stream_propagation (JObj ?kvs)))
                       (calculateBlastRadius_stream (stream_services (JObj ?kvs))))) 0 100)))
              (AList.update ''severity_score''
                 (JNum (Fin (clamp (max 0
                    (calculateSeverityFromServices_stream (stream_services (JObj ?kvs))))
                    0 100)))
                 ?kvs))) =
           JObj [(''confidence'', JNum (Fin (9 / 10))),
                (''services'',
              JArr [JObj [(''name'', JStr ''web''), (''status'', JStr ''down'')],
                    JObj [(''name'', JStr ''db''), (''status'', JStr ''healthy'')],
                    JObj [(''name'', JStr ''cache''), (''status'', JStr ''healthy'')]]),
                (''severity_score'', JNum (Fin 35)),
                (''business_impact_score'', JNum (Fin 7))]"
    by code_simp
  show ?thesis
    unfolding payload_one_down_def hybrid_scoring_JObj_eq [OF 1 2 3] 4 ..
qed

lemma hybrid_scoring_payload_tie:
  "hybrid_scoring sample_builtins payload_tie =
     Inr (JObj [(''business_impact_score'', JNum (Fin 14)),
                (''services'',
              JArr [JObj [(''name'', JStr ''web''), (''status'', JStr ''degraded'')],
                    JObj [(''name'', JStr ''db''), (''status'', JStr ''healthy'')],
                    JObj [(''name'', JStr ''cache''), (''status'', JStr ''healthy'')],
                    JObj [(''name'', JStr ''queue''), (''status'', JStr ''healthy'')]]),
                (''propagation'',
              JObj [(''nodes'', JArr [JObj [(''id'', JStr ''web''), (''label'', JStr ''web'')],
                                      JObj [(''id'', JStr ''db''), (''label'', JStr ''db'')],
                                      JObj [(''id'', JStr ''cache''), (''label'', JStr ''cache'')]]),
                    (''edges'', JArr [JObj [(''from'', JStr ''web''), (''to'', JStr ''db'')]])]),
                (''severity_score'', JNum (Fin 15)),
                (''confidence'', JNum (Fin 0))])"
proof -
  let ?kvs = "[(''business_impact_score'', JNum (Fin 10)),
           (''services'',
              JArr [JObj [(''name'', JStr ''web''), (''status'', JStr ''degraded'')],
                    JObj [(''name'', JStr ''db''), (''status'', JStr ''healthy'')],
                    JObj [(''name'', JStr ''cache''), (''status'', JStr ''healthy'')],
                    JObj [(''name'', JStr ''queue''), (''status'', JStr ''healthy'')]]),
           (''propagation'',
              JObj [(''nodes'', JArr [JObj [(''id'', JStr ''web''), (''label'', JStr ''web'')],
                                      JObj [(''id'', JStr ''db''), (''label'', JStr ''db'')],
                                      JObj [(''id'', JStr ''cache''), (''label'', JStr ''cache'')]]),
                    (''edges'', JArr [JObj [(''from'', JStr ''web''), (''to'', JStr ''db'')]])])]"
  have 1: "safeInt sample_builtins (get_opt (JObj ?kvs) ''severity_score'') = Inr 0"
    by code_simp
  have 2: "safeInt sample_builtins (get_opt (JObj ?kvs) ''business_impact_score'') = Inr 10"
    by code_simp
  have 3: "safeProb sample_builtins (get_opt (JObj ?kvs) ''confidence'') = Inr 0"
    by code_simp
  have 4: "JObj
            (AList.update ''confidence'' (JNum (Fin 0))
              (AList.update ''business_impact_score''
                 (JNum (Fin (clamp (Math_round
                    (impact_blend 10
                       (calculateImpactFromPropagation_stream (stream_propagation (JObj ?kvs)))
                       (calculateBlastRadius_stream (stream_services (JObj ?kvs))))) 0 100)))
              (AList.update ''severity_score''
                 (JNum (Fin (clamp (max 0
                    (calculateSeverityFromServices_stream (stream_services (JObj ?kvs))))
                    0 100)))
                 ?kvs))) =
           JObj [(''business_impact_score'', JNum (Fin 14)),
                (''services'',
              JArr [JObj [(''name'', JStr ''web''), (''status'', JStr ''degraded'')],
                    JObj [(''name'', JStr ''db''), (''status'', JStr ''healthy'')],
                    JObj [(''name'', JStr ''cache''), (''status'', JStr ''healthy'')],
                    JObj [(''name'', JStr ''queue''), (''status'', JStr ''healthy'')]]),
                (''propagation'',
              JObj [(''nodes'', JArr [JObj [(''id'', JStr ''web''), (''label'', JStr ''web'')],
                                      JObj [(''id'', JStr ''db''), (''label'', JStr ''db'')],
                                      JObj [(''id'', JStr ''cache''), (''label'', JStr ''cache'')]]),
                    (''edges'', JArr [JObj [(''from'', JStr ''web''), (''to'', JStr ''db'')]])]),
                (''severity_score'', JNum (Fin 15)),
                (''confidence'', JNum (Fin 0))]"
    by code_simp
  show ?thesis
    unfolding payload_tie_def hybrid_scoring_JObj_eq [OF 1 2 3] 4 ..
qed

text \<open>
  C4.  On both routes the final severity is \<open>clamp(max(ai_severity,
  deterministic_severity), 0, 100)\<close>, the deterministic severity computed from the statuses
  of the services (of the payload on the streaming route, of the report on the synchronous
  one).  For the statuses down, down, healthy both engines give 70, and the final severity
  is at least 70 whatever the severity the model reports.
\<close>

theorem C4_severity_is_floored:
  "(hybrid_scoring B (JObj kvs) = Inr S \<longrightarrow>
      (\<exists>ai. safeInt B (get_opt (JObj kvs) ''severity_score'') = Inr ai \<and>
            get_opt S ''severity_score'' =
              JNum (Fin (clamp (max ai (calculateSeverityFromServices_stream
                                          (elements (get_opt (JObj kvs) ''services'')))) 0 100)))) \<and>
   (normalize B ctx parsed = Inr R \<longrightarrow>
      (\<exists>ai. toInt01to100 B (get_opt parsed ''severity_score'') 0 = Inr ai \<and>
            severity_score R =
              clamp (max ai (calculateSeverityFromServices (services R))) 0 100)) \<and>
   (map (\<lambda>s. get_opt s ''status'') svcs = [JStr ''down'', JStr ''down'', JStr ''healthy''] \<longrightarrow>
      calculateSeverityFromServices_stream svcs = 70 \<and>
      70 \<le> clamp (max ai (calculateSeverityFromServices_stream svcs)) 0 100) \<and>
   (map status svcs' = [Down, Down, Healthy] \<longrightarrow>
      calculateSeverityFromServices svcs' = 70 \<and>
      70 \<le> clamp (max ai (calculateSeverityFromServices svcs')) 0 100)"
proof (intro conjI impI)
  assume "hybrid_scoring B (JObj kvs) = Inr S"
  from hybrid_scoring_fields [OF this]
  show "\<exists>ai. safeInt B (get_opt (JObj kvs) ''severity_score'') = Inr ai \<and>
            get_opt S ''severity_score'' =
              JNum (Fin (clamp (max ai (calculateSeverityFromServices_stream
                                          (elements (get_opt (JObj kvs) ''services'')))) 0 100))"
    unfolding stream_services_def by blast
next
  assume "normalize B ctx parsed = Inr R"
  from normalize_scores [OF this] obtain ai where
    ai: "toInt01to100 B (get_opt parsed ''severity_score'') 0 = Inr ai" and
    sev: "severity_score R =
            clamp (Math_round (max ai (calculateSeverityFromServices (services R)))) 0 100"
    by blast
  from toInt01to100_range [OF ai] have "ai \<in> \<int>" by simp
  then have "max ai (calculateSeverityFromServices (services R)) \<in> \<int>"
    by (rule max_Ints) (rule calculateSeverityFromServices_Ints)
  then have "Math_round (max ai (calculateSeverityFromServices (services R))) =
               max ai (calculateSeverityFromServices (services R))"
    by (rule Math_round_id)
  with ai sev
  show "\<exists>ai. toInt01to100 B (get_opt parsed ''severity_score'') 0 = Inr ai \<and>
            severity_score R = clamp (max ai (calculateSeverityFromServices (services R))) 0 100"
    by auto
next
  assume a: "map (\<lambda>s. get_opt s ''status'') svcs = [JStr ''down'', JStr ''down'', JStr ''healthy'']"
  show "calculateSeverityFromServices_stream svcs = 70"
    by (rule stream_severity_two_down [OF a])
  show "70 \<le> clamp (max ai (calculateSeverityFromServices_stream svcs)) 0 100"
    unfolding stream_severity_two_down [OF a] by (rule clamp_max_ge) simp_all
next
  assume a: "map status svcs' = [Down, Down, Healthy]"
  show "calculateSeverityFromServices svcs' = 70"
    by (rule sync_severity_two_down [OF a])
  show "70 \<le> clamp (max ai (calculateSeverityFromServices svcs')) 0 100"
    unfolding sync_severity_two_down [OF a] by (rule clamp_max_ge) simp_all
qed



theorem C4_severity_is_floored_witness:
  "(\<exists>S. hybrid_scoring sample_builtins payload_two_down = Inr S \<and>
        get_opt S ''severity_score'' = JNum (Fin 70)) \<and>
   (\<exists>R. normalize sample_builtins [] payload_two_down = Inr R \<and>
        map status (services R) = [Down, Down, Healthy] \<and>
        calculateSeverityFromServices (services R) = 70 \<and>
        severity_score R = 70) \<and>
   map (\<lambda>s. get_opt s ''status'') (elements (get_opt payload_two_down ''services'')) =
     [JStr ''down'', JStr ''down'', JStr ''healthy''] \<and>
   calculateSeverityFromServices_stream (elements (get_opt payload_two_down ''services'')) = 70 \<and>
   70 \<le> clamp (max 0 (calculateSeverityFromServices_stream
                          (elements (get_opt payload_two_down ''services'')))) 0 100"
proof -
  let ?svcs = "elements (get_opt payload_two_down ''services'')"
  from hybrid_scoring_payload_two_down obtain S where
    S: "hybrid_scoring sample_builtins payload_two_down = Inr S" by blast
  have "get_opt (projr (hybrid_scoring sample_builtins payload_two_down)) ''severity_score'' =
          JNum (Fin 70)"
    unfolding hybrid_scoring_payload_two_down by code_simp
  then have gS: "get_opt S ''severity_score'' = JNum (Fin 70)"
    unfolding S by (simp only: sum.sel)
  from normalize_payload_two_down obtain R where
    R: "normalize sample_builtins [] payload_two_down = Inr R" and
    sevR: "severity_score R = 70" and
    stR: "map status (services R) = [Down, Down, Healthy]"
    by - (elim exE conjE, rule that)
  have st: "map (\<lambda>s. get_opt s ''status'') ?svcs = [JStr ''down'', JStr ''down'', JStr ''healthy'']"
    unfolding payload_two_down_def by code_simp
  note T = C4_severity_is_floored [where svcs = ?svcs and svcs' = "services R" and ai = 0]
  note T3 = T [THEN conjunct2, THEN conjunct2, THEN conjunct1, rule_format, OF st]
  note T4 = T [THEN conjunct2, THEN conjunct2, THEN conjunct2, rule_format, OF stR]
  have A: "\<exists>S. hybrid_scoring sample_builtins payload_two_down = Inr S \<and>
        get_opt S ''severity_score'' = JNum (Fin 70)"
    using S gS by (intro exI [of _ S] conjI)
  have B: "\<exists>R. normalize sample_builtins [] payload_two_down = Inr R \<and>
        map status (services R) = [Down, Down, Healthy] \<and>
        calculateSeverityFromServices (services R) = 70 \<and>
        severity_score R = 70"
    using R stR T4 [THEN conjunct1] sevR by (intro exI [of _ R] conjI)
  show ?thesis
    using A B st T3 [THEN conjunct1] T3 [THEN conjunct2] by (intro conjI)
qed

lemma toNumber_JUndefined [simp]: "toNumber B JUndefined fallback = Inr fallback"
  by (simp add: toNumber_def js_Number_def)

lemma toInt01to100_JUndefined [simp]: "toInt01to100 B JUndefined 0 = Inr 0"
  by (simp add: toInt01to100_def clamp_def)

lemma toProb01_JUndefined [simp]: "toProb01 B JUndefined 0 = Inr 0"
  by (simp add: toProb01_def clamp_def)

lemma toStringArray_JUndefined [simp]: "toStringArray B JUndefined limit = Inr []"
  by (simp add: toStringArray_def isArray_def)

lemma trim_a: "trim ''a'' = ''a''"
  by code_simp

text \<open>Fewer than three entries in the payload give the fallback topology.\<close>

lemma map_throwing_length:
  "map_throwing f xs = Inr ys \<Longrightarrow> length ys = length xs"
  by (induction xs arbitrary: ys) (auto simp: then_do_eq_Inr)

lemma buildFallbackServices_names:
  "map s_name (buildFallbackServices it) = [''api-gateway'', ''primary-db'', ''cache'']"
  by (simp add: buildFallbackServices_def Let_def)

lemma dedup_by_fallback:
  assumes "map s_name svcs = [''api-gateway'', ''primary-db'', ''cache'']"
  shows "dedup_by s_name {} svcs = svcs"
proof -
  from assms obtain a b c where svcs: "svcs = [a, b, c]"
    and n: "s_name a = ''api-gateway''" "s_name b = ''primary-db''" "s_name c = ''cache''"
    by (auto simp: map_eq_Cons_conv)
  show ?thesis unfolding svcs by (simp add: n)
qed

lemma normalize_fallback_topology:
  assumes "normalize B ctx parsed = Inr R"
    and "length (elements (get_opt parsed ''services'')) < 3"
  shows "services R =
           buildFallbackServices (toStringSafe (get_opt parsed ''incident_type'') ''Unknown Incident'') \<and>
         map s_name (services R) = [''api-gateway'', ''primary-db'', ''cache'']"
proof -
  from assms(1) obtain mapped where m: "normalize_services B parsed = Inr mapped"
    and s: "services R =
              dedup_by s_name {}
                (if length mapped < 3
                 then buildFallbackServices
                        (toStringSafe (get_opt parsed ''incident_type'') ''Unknown Incident'')
                 else mapped)"
    unfolding normalize_def Let_def by (auto simp: then_do_eq_Inr)
  from m obtain svcs where
    "map_throwing
       (\<lambda>s. then_do (toStringArray B (get_opt s ''signals'') 12) (\<lambda>sig.
              then_do (toStringArray B (get_opt s ''suspected_components'') 12) (\<lambda>sc.
              Inr \<lparr>s_name = (let n = trim (toStringSafe (get_opt s ''name'') [])
                             in if n \<noteq> [] then n else ''unknown-service''),
                   status = safeServiceStatus (get_opt s ''status''),
                   signals = sig,
                   suspected_components = sc\<rparr>)))
       (elements (get_opt parsed ''services'')) = Inr svcs"
    and f: "mapped = filter (\<lambda>s. length (s_name s) > 0) svcs"
    unfolding normalize_services_def by (auto simp: then_do_eq_Inr elements_if_isArray)
  then have "length svcs = length (elements (get_opt parsed ''services''))"
    by (auto dest: map_throwing_length)
  moreover have "length mapped \<le> length svcs" unfolding f by simp
  ultimately have "length mapped < 3" using assms(2) by simp
  with s show ?thesis
    by (simp add: dedup_by_fallback [OF buildFallbackServices_names] buildFallbackServices_names)
qed

text \<open>
  C3.  The specification says that the services of a report are always at least three.  The route
  replaces a list of fewer than three services by the fallback topology and only then
  drops the services whose name has occurred before, so three services of one name, or
  three services without a name (each named \<open>unknown-service\<close>), pass the test and leave
  one service in the report.
  (With fewer than three entries the services are the three of the fallback topology:
  \<open>normalize_fallback_topology\<close>.)
\<close>

theorem C3_duplicate_names_leave_one_service:
  "then_do (normalize B ctx
      (JObj [(''services'', JArr [JObj [(''name'', JStr ''a'')], JObj [(''name'', JStr ''a'')],
                                   JObj [(''name'', JStr ''a'')]])]))
     (\<lambda>r. Inr (map s_name (services r))) = Inr [''a''] \<and>
   then_do (normalize B ctx (JObj [(''services'', JArr [JObj [], JObj [], JObj []])]))
     (\<lambda>r. Inr (map s_name (services r))) = Inr [''unknown-service'']"
  by (simp add: normalize_def normalize_causes_def normalize_services_def get_opt_def
      isArray_def elements_def toStringSafe_def trim_a Let_def)

lemma count_status_map:
  "count_status st svcs = length (filter (\<lambda>x. x = st) (map status svcs))"
  by (simp add: count_status_def filter_map comp_def)

text \<open>
  C6.  The specification gives the final business impact as \<open>clamp(round(0.5 * ai_impact +
  0.3 * deterministic_impact + 0.2 * blast_radius), 0, 100)\<close>.  The routes compute the blend
  in doubles.  On a payload with the impact 10 from the model, three nodes and one edge
  (deterministic impact 23) and one service of four degraded (blast radius 13) the blend is
  14.5 and the formula gives 15; the doubles give 14.499999999999998 and both routes
  report 14.
\<close>

theorem C6_exact_blend_counterexample:
  "toInt01to100 sample_builtins (get_opt payload_tie ''business_impact_score'') 0 = Inr 10 \<and>
   calculateImpactFromPropagation
     (propagation (projr (normalize sample_builtins [] payload_tie))) = 23 \<and>
   calculateBlastRadius (services (projr (normalize sample_builtins [] payload_tie))) = 13 \<and>
   business_impact_score (projr (normalize sample_builtins [] payload_tie)) = 14 \<and>
   get_opt (projr (hybrid_scoring sample_builtins payload_tie)) ''business_impact_score'' =
     JNum (Fin 14) \<and>
   clamp (Math_round (1 / 2 * 10 + 3 / 10 * 23 + 1 / 5 * 13)) 0 100 = 15 \<and>
   business_impact_score (projr (normalize sample_builtins [] payload_tie)) \<noteq>
     clamp (Math_round (1 / 2 * 10 + 3 / 10 * 23 + 1 / 5 * 13)) 0 100"
proof -
  from normalize_payload_tie obtain R where
    R: "normalize sample_builtins [] payload_tie = Inr R" and
    imp: "business_impact_score R = 14" and
    st: "map status (services R) = [Degraded, Healthy, Healthy, Healthy]" and
    len: "length (nodes (propagation R)) = 3" "length (edges (propagation R)) = 1"
    by - (elim exE conjE, rule that)
  have 1: "toInt01to100 sample_builtins (get_opt payload_tie ''business_impact_score'') 0 = Inr 10"
    unfolding payload_tie_def by code_simp
  have 2: "calculateImpactFromPropagation (propagation R) = 23"
    by (simp add: calculateImpactFromPropagation_eq len clamp_def)
  have L: "length (services R) = 4"
    using arg_cong [OF st, of length] by simp
  have 3: "calculateBlastRadius (services R) = 13"
    unfolding calculateBlastRadius_eq count_status_map st L by code_simp
  have 5: "get_opt (projr (hybrid_scoring sample_builtins payload_tie)) ''business_impact_score'' =
             JNum (Fin 14)"
    unfolding hybrid_scoring_payload_tie by code_simp
  have 6: "clamp (Math_round (1 / 2 * 10 + 3 / 10 * 23 + 1 / 5 * 13)) 0 100 = 15"
    by (simp add: Math_round_def clamp_def)
  have 7: "business_impact_score R \<noteq> clamp (Math_round (1 / 2 * 10 + 3 / 10 * 23 + 1 / 5 * 13)) 0 100"
    unfolding imp 6 by simp
  show ?thesis
    unfolding R sum.sel using 1 2 3 imp 5 [unfolded R] 6 7 by (intro conjI)
qed

text \<open>
  C6, as the routes have it.  The final business impact is \<open>clamp(round(b), 0, 100)\<close> for the
  blend \<open>b\<close> of \<open>0.5 * ai_impact + 0.3 * deterministic_impact + 0.2 * blast_radius\<close> computed
  in doubles (\<open>impact_blend\<close>), where the impact of the model is the coerced score, the
  deterministic impact is \<open>clamp(5 * node_count + 8 * edge_count, 0, 100)\<close> and the blast
  radius is the one of the counts of services down and degraded (\<open>blast_radius\<close>): on the
  synchronous route over the propagation and the services of the report, on the streaming
  route over those of the payload.  Three nodes and two edges give the deterministic
  impact 31.
\<close>

theorem C6_impact_is_blend_in_doubles:
  "(normalize B ctx parsed = Inr R \<longrightarrow>
      (\<exists>ai. toInt01to100 B (get_opt parsed ''business_impact_score'') 0 = Inr ai \<and>
            business_impact_score R =
              clamp (Math_round
                 (impact_blend ai
                    (clamp (5 * of_nat (length (nodes (propagation R))) +
                            8 * of_nat (length (edges (propagation R)))) 0 100)
                    (blast_radius (count_status Down (services R))
                       (count_status Degraded (services R)) (length (services R))))) 0 100)) \<and>
   (hybrid_scoring B (JObj kvs) = Inr S \<longrightarrow>
      (\<exists>ai. safeInt B (get_opt (JObj kvs) ''business_impact_score'') = Inr ai \<and>
            get_opt S ''business_impact_score'' =
              JNum (Fin (clamp (Math_round
                 (impact_blend ai
                    (clamp (5 * of_nat (length (elements
                                  (get_opt (stream_propagation (JObj kvs)) ''nodes''))) +
                            8 * of_nat (length (elements
                                  (get_opt (stream_propagation (JObj kvs)) ''edges'')))) 0 100)
                    (blast_radius (count_raw ''down'' (stream_services (JObj kvs)))
                       (count_raw ''degraded'' (stream_services (JObj kvs)))
                       (length (stream_services (JObj kvs)))))) 0 100)))) \<and>
   calculateImpactFromPropagation p =
     clamp (5 * of_nat (length (nodes p)) + 8 * of_nat (length (edges p))) 0 100 \<and>
   (length (nodes p) = 3 \<and> length (edges p) = 2 \<longrightarrow> calculateImpactFromPropagation p = 31)"
proof (intro conjI impI)
  assume "normalize B ctx parsed = Inr R"
  from normalize_final_scores [OF this]
  show "\<exists>ai. toInt01to100 B (get_opt parsed ''business_impact_score'') 0 = Inr ai \<and>
            business_impact_score R =
              clamp (Math_round
                 (impact_blend ai
                    (clamp (5 * of_nat (length (nodes (propagation R))) +
                            8 * of_nat (length (edges (propagation R)))) 0 100)
                    (blast_radius (count_status Down (services R))
                       (count_status Degraded (services R)) (length (services R))))) 0 100"
    unfolding calculateImpactFromPropagation_eq calculateBlastRadius_eq by blast
next
  assume "hybrid_scoring B (JObj kvs) = Inr S"
  from hybrid_scoring_fields [OF this]
  show "\<exists>ai. safeInt B (get_opt (JObj kvs) ''business_impact_score'') = Inr ai \<and>
            get_opt S ''business_impact_score'' =
              JNum (Fin (clamp (Math_round
                 (impact_blend ai
                    (clamp (5 * of_nat (length (elements
                                  (get_opt (stream_propagation (JObj kvs)) ''nodes''))) +
                            8 * of_nat (length (elements
                                  (get_opt (stream_propagation (JObj kvs)) ''edges'')))) 0 100)
                    (blast_radius (count_raw ''down'' (stream_services (JObj kvs)))
                       (count_raw ''degraded'' (stream_services (JObj kvs)))
                       (length (stream_services (JObj kvs)))))) 0 100))"
    unfolding calculateImpactFromPropagation_stream_eq calculateBlastRadius_stream_eq by blast
next
  show "calculateImpactFromPropagation p =
     clamp (5 * of_nat (length (nodes p)) + 8 * of_nat (length (edges p))) 0 100"
    by (rule calculateImpactFromPropagation_eq)
next
  assume "length (nodes p) = 3 \<and> length (edges p) = 2"
  then show "calculateImpactFromPropagation p = 31"
    by (simp add: calculateImpactFromPropagation_eq clamp_def)
qed

theorem C6_impact_is_blend_in_doubles_witness:
  "(\<exists>R. normalize sample_builtins [] payload_tie = Inr R \<and>
        toInt01to100 sample_builtins (get_opt payload_tie ''business_impact_score'') 0 = Inr 10 \<and>
        business_impact_score R =
          clamp (Math_round
             (impact_blend 10
                (clamp (5 * of_nat (length (nodes (propagation R))) +
                        8 * of_nat (length (edges (propagation R)))) 0 100)
                (blast_radius (count_status Down (services R))
                   (count_status Degraded (services R)) (length (services R))))) 0 100 \<and>
        business_impact_score R = 14) \<and>
   (\<exists>S. hybrid_scoring sample_builtins payload_tie = Inr S \<and>
        get_opt S ''business_impact_score'' =
          JNum (Fin (clamp (Math_round
             (impact_blend 10
                (clamp (5 * of_nat (length (elements
                              (get_opt (stream_propagation payload_tie) ''nodes''))) +
                        8 * of_nat (length (elements
                              (get_opt (stream_propagation payload_tie) ''edges'')))) 0 100)
                (blast_radius (count_raw ''down'' (stream_services payload_tie))
                   (count_raw ''degraded'' (stream_services payload_tie))
                   (length (stream_services payload_tie))))) 0 100)) \<and>
        get_opt S ''business_impact_score'' = JNum (Fin 14)) \<and>
   (\<exists>R. normalize sample_builtins [] payload_two_down = Inr R \<and>
        length (nodes (propagation R)) = 3 \<and> length (edges (propagation R)) = 2 \<and>
        calculateImpactFromPropagation (propagation R) = 31)"
proof -
  define kvs where "kvs =
     [(''business_impact_score'', JNum (Fin 10)),
           (''services'',
              JArr [JObj [(''name'', JStr ''web''), (''status'', JStr ''degraded'')],
                    JObj [(''name'', JStr ''db''), (''status'', JStr ''healthy'')],
                    JObj [(''name'', JStr ''cache''), (''status'', JStr ''healthy'')],
                    JObj [(''name'', JStr ''queue''), (''status'', JStr ''healthy'')]]),
           (''propagation'',
              JObj [(''nodes'', JArr [JObj [(''id'', JStr ''web''), (''label'', JStr ''web'')],
                                      JObj [(''id'', JStr ''db''), (''label'', JStr ''db'')],
                                      JObj [(''id'', JStr ''cache''), (''label'', JStr ''cache'')]]),
                    (''edges'', JArr [JObj [(''from'', JStr ''web''), (''to'', JStr ''db'')]])])]"
  have p: "payload_tie = JObj kvs" by (simp add: payload_tie_def kvs_def)
  from normalize_payload_tie obtain R where
    R: "normalize sample_builtins [] payload_tie = Inr R" and
    imp: "business_impact_score R = 14"
    by - (elim exE conjE, rule that)
  from hybrid_scoring_payload_tie obtain S where
    S: "hybrid_scoring sample_builtins payload_tie = Inr S" by blast
  have "get_opt (projr (hybrid_scoring sample_builtins payload_tie)) ''business_impact_score'' =
          JNum (Fin 14)"
    unfolding hybrid_scoring_payload_tie by code_simp
  then have gS: "get_opt S ''business_impact_score'' = JNum (Fin 14)"
    unfolding S by (simp only: sum.sel)
  from normalize_payload_two_down obtain R2 where
    R2: "normalize sample_builtins [] payload_two_down = Inr R2" and
    n2: "length (nodes (propagation R2)) = 3" and
    e2': "length (edges (propagation R2)) = 2"
    by - (elim exE conjE, rule that)
  from n2 e2' have
    len2: "length (nodes (propagation R2)) = 3 \<and> length (edges (propagation R2)) = 2"
    by (rule conjI)
  have ai: "toInt01to100 sample_builtins (get_opt payload_tie ''business_impact_score'') 0 = Inr 10"
    unfolding payload_tie_def by code_simp
  have aj: "safeInt sample_builtins (get_opt payload_tie ''business_impact_score'') = Inr 10"
    unfolding payload_tie_def by code_simp
  note T = C6_impact_is_blend_in_doubles
             [where B = sample_builtins and ctx = "[]" and parsed = payload_tie and R = R
                and kvs = kvs and S = S and p = "propagation R2"]
  note T1 = T [THEN conjunct1, rule_format, OF R]
  note T2 = T [THEN conjunct2, THEN conjunct1, rule_format, OF S [unfolded p], folded p]
  note T4 = T [THEN conjunct2, THEN conjunct2, THEN conjunct2, rule_format, OF len2]
  from T1 obtain a where
    "toInt01to100 sample_builtins (get_opt payload_tie ''business_impact_score'') 0 = Inr a"
    and e1: "business_impact_score R =
              clamp (Math_round
                 (impact_blend a
                    (clamp (5 * of_nat (length (nodes (propagation R))) +
                            8 * of_nat (length (edges (propagation R)))) 0 100)
                    (blast_radius (count_status Down (services R))
                       (count_status Degraded (services R)) (length (services R))))) 0 100"
    by (elim exE conjE)
  with ai have a: "a = 10" by (simp only: sum.inject)
  from T2 obtain a' where
    "safeInt sample_builtins (get_opt payload_tie ''business_impact_score'') = Inr a'"
    and e2: "get_opt S ''business_impact_score'' =
          JNum (Fin (clamp (Math_round
             (impact_blend a'
                (clamp (5 * of_nat (length (elements
                              (get_opt (stream_propagation payload_tie) ''nodes''))) +
                        8 * of_nat (length (elements
                              (get_opt (stream_propagation payload_tie) ''edges'')))) 0 100)
                (blast_radius (count_raw ''down'' (stream_services payload_tie))
                   (count_raw ''degraded'' (stream_services payload_tie))
                   (length (stream_services payload_tie))))) 0 100))"
    by (elim exE conjE)
  with aj have a': "a' = 10" by (simp only: sum.inject)
  have A: "\<exists>R. normalize sample_builtins [] payload_tie = Inr R \<and>
        toInt01to100 sample_builtins (get_opt payload_tie ''business_impact_score'') 0 = Inr 10 \<and>
        business_impact_score R =
          clamp (Math_round
             (impact_blend 10
                (clamp (5 * of_nat (length (nodes (propagation R))) +
                        8 * of_nat (length (edges (propagation R)))) 0 100)
                (blast_radius (count_status Down (services R))
                   (count_status Degraded (services R)) (length (services R))))) 0 100 \<and>
        business_impact_score R = 14"
    using R ai e1 [unfolded a] imp by (intro exI [of _ R] conjI)
  have B: "\<exists>S. hybrid_scoring sample_builtins payload_tie = Inr S \<and>
        get_opt S ''business_impact_score'' =
          JNum (Fin (clamp (Math_round
             (impact_blend 10
                (clamp (5 * of_nat (length (elements
                              (get_opt (stream_propagation payload_tie) ''nodes''))) +
                        8 * of_nat (length (elements
                              (get_opt (stream_propagation payload_tie) ''edges'')))) 0 100)
                (blast_radius (count_raw ''down'' (stream_services payload_tie))
                   (count_raw ''degraded'' (stream_services payload_tie))
                   (length (stream_services payload_tie))))) 0 100)) \<and>
        get_opt S ''business_impact_score'' = JNum (Fin 14)"
    using S e2 [unfolded a'] gS by (intro exI [of _ S] conjI)
  have C: "\<exists>R. normalize sample_builtins [] payload_two_down = Inr R \<and>
        length (nodes (propagation R)) = 3 \<and> length (edges (propagation R)) = 2 \<and>
        calculateImpactFromPropagation (propagation R) = 31"
    using R2 len2 [THEN conjunct1] len2 [THEN conjunct2] T4 by (intro exI [of _ R2] conjI)
  from A B C show ?thesis by (intro conjI)
qed

lemma report_json_scores:
  "get_opt (report_json r) ''confidence'' = JNum (Fin (confidence r))"
  "get_opt (report_json r) ''severity_score'' = JNum (Fin (severity_score r))"
  "get_opt (report_json r) ''business_impact_score'' = JNum (Fin (business_impact_score r))"
  by (simp_all add: report_json_def get_opt_def)

section \<open>Properties of the two routes together\<close>

text \<open>
  C2.  The specification says that, on the same parsed JSON object, the report of the synchronous
  route equals the report in the final event of the streaming route.  On a payload with
  one service down and two healthy the synchronous route reports the severity 45 and the
  streaming route 35, and the reports differ.
\<close>

theorem C2_reports_differ_counterexample:
  "sync_report sample_builtins [] payload_one_down \<noteq>
     hybrid_scoring sample_builtins payload_one_down \<and>
   get_opt (projr (sync_report sample_builtins [] payload_one_down)) ''severity_score'' =
     JNum (Fin 45) \<and>
   get_opt (projr (hybrid_scoring sample_builtins payload_one_down)) ''severity_score'' =
     JNum (Fin 35)"
proof -
  from normalize_payload_one_down obtain R where
    R: "normalize sample_builtins [] payload_one_down = Inr R" and
    sev: "severity_score R = 45"
    by - (elim exE conjE, rule that)
  have sr: "sync_report sample_builtins [] payload_one_down = Inr (report_json R)"
    by (simp only: sync_report_def R then_do_Inr)
  have 2: "get_opt (projr (sync_report sample_builtins [] payload_one_down)) ''severity_score'' =
             JNum (Fin 45)"
    by (simp only: sr sum.sel report_json_scores sev)
  have 3: "get_opt (projr (hybrid_scoring sample_builtins payload_one_down)) ''severity_score'' =
             JNum (Fin 35)"
    unfolding hybrid_scoring_payload_one_down by code_simp
  have 1: "sync_report sample_builtins [] payload_one_down \<noteq>
             hybrid_scoring sample_builtins payload_one_down"
  proof
    assume e: "sync_report sample_builtins [] payload_one_down =
                 hybrid_scoring sample_builtins payload_one_down"
    from 2 3 show False unfolding e by simp
  qed
  from 1 2 3 show ?thesis by (intro conjI)
qed

text \<open>
  C2, as the routes have it.  On the same parsed object, when both routes deliver a report, the
  three scores of the model are coerced to the same values \<open>ai\<close>, \<open>aj\<close> and \<open>c\<close> on both routes,
  and:
  \<^item> both reports have the confidence \<open>c\<close>;
  \<^item> the severity is \<open>clamp(max(ai, d), 0, 100)\<close>, where on the streaming route \<open>d\<close> is
    \<open>clamp(35 * down + 15 * degraded, 0, 100)\<close> over the services of the payload, and on the
    synchronous route \<open>d\<close> is \<open>clamp(t + 10 * degraded, 0, 100)\<close> over the services of the
    report, with \<open>t\<close> = 70 for two or more services down, 45 for one, 0 for none;
  \<^item> the business impact is \<open>clamp(round(b), 0, 100)\<close> for the blend \<open>b\<close> in doubles of
    \<open>0.5 * aj + 0.3 * clamp(5 * nodes + 8 * edges, 0, 100) + 0.2 * blast_radius\<close>, over the
    propagation and the services of the payload on the streaming route and over those of
    the report on the synchronous route.
\<close>

theorem C2_routes_share_the_coerced_scores:
  "hybrid_scoring B (JObj kvs) = Inr S \<and> normalize B ctx (JObj kvs) = Inr r \<longrightarrow>
     (\<exists>ai aj c.
        safeInt B (get_opt (JObj kvs) ''severity_score'') = Inr ai \<and>
        safeInt B (get_opt (JObj kvs) ''business_impact_score'') = Inr aj \<and>
        safeProb B (get_opt (JObj kvs) ''confidence'') = Inr c \<and>
        get_opt S ''confidence'' = JNum (Fin c) \<and>
        get_opt (report_json r) ''confidence'' = JNum (Fin c) \<and>
        get_opt S ''severity_score'' =
          JNum (Fin (clamp (max ai
             (clamp (35 * of_nat (count_raw ''down'' (stream_services (JObj kvs))) +
                     15 * of_nat (count_raw ''degraded'' (stream_services (JObj kvs)))) 0 100))
             0 100)) \<and>
        get_opt (report_json r) ''severity_score'' =
          JNum (Fin (clamp (max ai
             (clamp ((if 2 \<le> count_status Down (services r) then 70
                      else if count_status Down (services r) = 1 then 45 else 0) +
                     10 * of_nat (count_status Degraded (services r))) 0 100))
             0 100)) \<and>
        get_opt S ''business_impact_score'' =
          JNum (Fin (clamp (Math_round
             (impact_blend aj
                (clamp (5 * of_nat (length (elements
                              (get_opt (stream_propagation (JObj kvs)) ''nodes''))) +
                        8 * of_nat (length (elements
                              (get_opt (stream_propagation (JObj kvs)) ''edges'')))) 0 100)
                (blast_radius (count_raw ''down'' (stream_services (JObj kvs)))
                   (count_raw ''degraded'' (stream_services (JObj kvs)))
                   (length (stream_services (JObj kvs)))))) 0 100)) \<and>
        get_opt (report_json r) ''business_impact_score'' =
          JNum (Fin (clamp (Math_round
             (impact_blend aj
                (clamp (5 * of_nat (length (nodes (propagation r))) +
                        8 * of_nat (length (edges (propagation r)))) 0 100)
                (blast_radius (count_status Down (services r))
                   (count_status Degraded (services r)) (length (services r))))) 0 100)))"
proof (intro impI, elim conjE)
  assume S: "hybrid_scoring B (JObj kvs) = Inr S" and r: "normalize B ctx (JObj kvs) = Inr r"
  from hybrid_scoring_fields [OF S] obtain ai aj c where
    ai: "safeInt B (get_opt (JObj kvs) ''severity_score'') = Inr ai" and
    aj: "safeInt B (get_opt (JObj kvs) ''business_impact_score'') = Inr aj" and
    c: "safeProb B (get_opt (JObj kvs) ''confidence'') = Inr c" and
    Sc: "get_opt S ''confidence'' = JNum (Fin c)" and
    Ss: "get_opt S ''severity_score'' =
           JNum (Fin (clamp (max ai
              (calculateSeverityFromServices_stream (stream_services (JObj kvs)))) 0 100))" and
    Si: "get_opt S ''business_impact_score'' =
           JNum (Fin (clamp (Math_round
              (impact_blend aj
                 (calculateImpactFromPropagation_stream (stream_propagation (JObj kvs)))
                 (calculateBlastRadius_stream (stream_services (JObj kvs))))) 0 100))"
    by - (elim exE conjE, rule that)
  from normalize_final_scores [OF r] obtain ai' aj' c' where
    ai': "toInt01to100 B (get_opt (JObj kvs) ''severity_score'') 0 = Inr ai'" and
    aj': "toInt01to100 B (get_opt (JObj kvs) ''business_impact_score'') 0 = Inr aj'" and
    c': "toProb01 B (get_opt (JObj kvs) ''confidence'') 0 = Inr c'" and
    rs: "severity_score r = clamp (max ai' (calculateSeverityFromServices (services r))) 0 100" and
    ri: "business_impact_score r =
           clamp (Math_round (impact_blend aj'
                                (calculateImpactFromPropagation (propagation r))
                                (calculateBlastRadius (services r)))) 0 100" and
    rc: "confidence r = c'"
    by - (elim exE conjE, rule that)
  from ai ai' have e1: "ai' = ai" by (simp add: safeInt_eq_toInt01to100)
  from aj aj' have e2: "aj' = aj" by (simp add: safeInt_eq_toInt01to100)
  from c c' have e3: "c' = c" by (simp add: safeProb_eq_toProb01)
  have 1: "get_opt (report_json r) ''confidence'' = JNum (Fin c)"
    by (simp only: report_json_scores rc e3)
  have 2: "get_opt S ''severity_score'' =
          JNum (Fin (clamp (max ai
             (clamp (35 * of_nat (count_raw ''down'' (stream_services (JObj kvs))) +
                     15 * of_nat (count_raw ''degraded'' (stream_services (JObj kvs)))) 0 100))
             0 100))"
    using Ss unfolding calculateSeverityFromServices_stream_eq .
  have 3: "get_opt (report_json r) ''severity_score'' =
          JNum (Fin (clamp (max ai
             (clamp ((if 2 \<le> count_status Down (services r) then 70
                      else if count_status Down (services r) = 1 then 45 else 0) +
                     10 * of_nat (count_status Degraded (services r))) 0 100))
             0 100))"
    by (simp only: report_json_scores rs e1 calculateSeverityFromServices_eq)
  have 4: "get_opt S ''business_impact_score'' =
          JNum (Fin (clamp (Math_round
             (impact_blend aj
                (clamp (5 * of_nat (length (elements
                              (get_opt (stream_propagation (JObj kvs)) ''nodes''))) +
                        8 * of_nat (length (elements
                              (get_opt (stream_propagation (JObj kvs)) ''edges'')))) 0 100)
                (blast_radius (count_raw ''down'' (stream_services (JObj kvs)))
                   (count_raw ''degraded'' (stream_services (JObj kvs)))
                   (length (stream_services (JObj kvs)))))) 0 100))"
    using Si unfolding calculateImpactFromPropagation_stream_eq calculateBlastRadius_stream_eq .
  have 5: "get_opt (report_json r) ''business_impact_score'' =
          JNum (Fin (clamp (Math_round
             (impact_blend aj
                (clamp (5 * of_nat (length (nodes (propagation r))) +
                        8 * of_nat (length (edges (propagation r)))) 0 100)
                (blast_radius (count_status Down (services r))
                   (count_status Degraded (services r)) (length (services r))))) 0 100))"
    by (simp only: report_json_scores ri e2 calculateImpactFromPropagation_eq
        calculateBlastRadius_eq)
  from ai aj c Sc 1 2 3 4 5
  show "(\<exists>ai aj c.
        safeInt B (get_opt (JObj kvs) ''severity_score'') = Inr ai \<and>
        safeInt B (get_opt (JObj kvs) ''business_impact_score'') = Inr aj \<and>
        safeProb B (get_opt (JObj kvs) ''confidence'') = Inr c \<and>
        get_opt S ''confidence'' = JNum (Fin c) \<and>
        get_opt (report_json r) ''confidence'' = JNum (Fin c) \<and>
        get_opt S ''severity_score'' =
          JNum (Fin (clamp (max ai
             (clamp (35 * of_nat (count_raw ''down'' (stream_services (JObj kvs))) +
                     15 * of_nat (count_raw ''degraded'' (stream_services (JObj kvs)))) 0 100))
             0 100)) \<and>
        get_opt (report_json r) ''severity_score'' =
          JNum (Fin (clamp (max ai
             (clamp ((if 2 \<le> count_status Down (services r) then 70
                      else if count_status Down (services r) = 1 then 45 else 0) +
                     10 * of_nat (count_status Degraded (services r))) 0 100))
             0 100)) \<and>
        get_opt S ''business_impact_score'' =
          JNum (Fin (clamp (Math_round
             (impact_blend aj
                (clamp (5 * of_nat (length (elements
                              (get_opt (stream_propagation (JObj kvs)) ''nodes''))) +
                        8 * of_nat (length (elements
                              (get_opt (stream_propagation (JObj kvs)) ''edges'')))) 0 100)
                (blast_radius (count_raw ''down'' (stream_services (JObj kvs)))
                   (count_raw ''degraded'' (stream_services (JObj kvs)))
                   (length (stream_services (JObj kvs)))))) 0 100)) \<and>
        get_opt (report_json r) ''business_impact_score'' =
          JNum (Fin (clamp (Math_round
             (impact_blend aj
                (clamp (5 * of_nat (length (nodes (propagation r))) +
                        8 * of_nat (length (edges (propagation r)))) 0 100)
                (blast_radius (count_status Down (services r))
                   (count_status Degraded (services r)) (length (services r))))) 0 100)))"
    by (intro exI [of _ ai] exI [of _ aj] exI [of _ c] conjI)
qed

theorem C2_routes_share_the_coerced_scores_witness:
  "\<exists>S r. hybrid_scoring sample_builtins payload_one_down = Inr S \<and>
         normalize sample_builtins [] payload_one_down = Inr r \<and>
         get_opt S ''confidence'' = JNum (Fin (9 / 10)) \<and>
         get_opt (report_json r) ''confidence'' = JNum (Fin (9 / 10)) \<and>
         get_opt S ''severity_score'' = JNum (Fin 35) \<and>
         get_opt (report_json r) ''severity_score'' = JNum (Fin 45) \<and>
         get_opt S ''business_impact_score'' = JNum (Fin 7) \<and>
         get_opt (report_json r) ''business_impact_score'' = JNum (Fin 16)"
proof -
  define kvs where "kvs =
          [(''confidence'', JNum (Fin (9 / 10))),
           (''services'',
              JArr [JObj [(''name'', JStr ''web''), (''status'', JStr ''down'')],
                    JObj [(''name'', JStr ''db''), (''status'', JStr ''healthy'')],
                    JObj [(''name'', JStr ''cache''), (''status'', JStr ''healthy'')]])]"
  have p: "payload_one_down = JObj kvs" by (simp add: payload_one_down_def kvs_def)
  from hybrid_scoring_payload_one_down obtain S where
    S: "hybrid_scoring sample_builtins payload_one_down = Inr S" by blast
  from normalize_payload_one_down obtain r where
    r: "normalize sample_builtins [] payload_one_down = Inr r" and
    st: "map status (services r) = [Down, Healthy, Healthy]" and
    n: "length (nodes (propagation r)) = 3" and
    e: "length (edges (propagation r)) = 2"
    by - (elim exE conjE, rule that)
  have L: "length (services r) = 3"
    using arg_cong [OF st, of length] by simp
  note T = C2_routes_share_the_coerced_scores
             [where B = sample_builtins and kvs = kvs and S = S and ctx = "[]" and r = r,
              rule_format, OF conjI [OF S [unfolded p] r [unfolded p]], folded p]
  from T obtain ai aj c where
    ai: "safeInt sample_builtins (get_opt payload_one_down ''severity_score'') = Inr ai" and
    aj: "safeInt sample_builtins (get_opt payload_one_down ''business_impact_score'') = Inr aj" and
    c: "safeProb sample_builtins (get_opt payload_one_down ''confidence'') = Inr c" and
    Sc: "get_opt S ''confidence'' = JNum (Fin c)" and
    Rc: "get_opt (report_json r) ''confidence'' = JNum (Fin c)" and
    Ss: "get_opt S ''severity_score'' =
          JNum (Fin (clamp (max ai
             (clamp (35 * of_nat (count_raw ''down'' (stream_services payload_one_down)) +
                     15 * of_nat (count_raw ''degraded'' (stream_services payload_one_down))) 0 100))
             0 100))" and
    Rs: "get_opt (report_json r) ''severity_score'' =
          JNum (Fin (clamp (max ai
             (clamp ((if 2 \<le> count_status Down (services r) then 70
                      else if count_status Down (services r) = 1 then 45 else 0) +
                     10 * of_nat (count_status Degraded (services r))) 0 100))
             0 100))" and
    Si: "get_opt S ''business_impact_score'' =
          JNum (Fin (clamp (Math_round
             (impact_blend aj
                (clamp (5 * of_nat (length (elements
                              (get_opt (stream_propagation payload_one_down) ''nodes''))) +
                        8 * of_nat (length (elements
                              (get_opt (stream_propagation payload_one_down) ''edges'')))) 0 100)
                (blast_radius (count_raw ''down'' (stream_services payload_one_down))
                   (count_raw ''degraded'' (stream_services payload_one_down))
                   (length (stream_services payload_one_down))))) 0 100))" and
    Ri: "get_opt (report_json r) ''business_impact_score'' =
          JNum (Fin (clamp (Math_round
             (impact_blend aj
                (clamp (5 * of_nat (length (nodes (propagation r))) +
                        8 * of_nat (length (edges (propagation r)))) 0 100)
                (blast_radius (count_status Down (services r))
                   (count_status Degraded (services r)) (length (services r))))) 0 100))"
    by - (elim exE conjE, rule that)
  have "safeInt sample_builtins (get_opt payload_one_down ''severity_score'') = Inr 0"
    unfolding payload_one_down_def by code_simp
  with ai have ai0: "ai = 0" by (simp only: sum.inject)
  have "safeInt sample_builtins (get_opt payload_one_down ''business_impact_score'') = Inr 0"
    unfolding payload_one_down_def by code_simp
  with aj have aj0: "aj = 0" by (simp only: sum.inject)
  have "safeProb sample_builtins (get_opt payload_one_down ''confidence'') = Inr (9 / 10)"
    unfolding payload_one_down_def by code_simp
  with c have c0: "c = 9 / 10" by (simp only: sum.inject)
  have v1: "clamp (max 0
             (clamp (35 * of_nat (count_raw ''down'' (stream_services payload_one_down)) +
                     15 * of_nat (count_raw ''degraded'' (stream_services payload_one_down))) 0 100))
             0 100 = 35"
    unfolding payload_one_down_def by code_simp
  have v2: "clamp (max 0
             (clamp ((if 2 \<le> count_status Down (services r) then 70
                      else if count_status Down (services r) = 1 then 45 else 0) +
                     10 * of_nat (count_status Degraded (services r))) 0 100))
             0 100 = 45"
    unfolding count_status_map st L by code_simp
  have v3: "clamp (Math_round
             (impact_blend 0
                (clamp (5 * of_nat (length (elements
                              (get_opt (stream_propagation payload_one_down) ''nodes''))) +
                        8 * of_nat (length (elements
                              (get_opt (stream_propagation payload_one_down) ''edges'')))) 0 100)
                (blast_radius (count_raw ''down'' (stream_services payload_one_down))
                   (count_raw ''degraded'' (stream_services payload_one_down))
                   (length (stream_services payload_one_down))))) 0 100 = 7"
    unfolding payload_one_down_def by code_simp
  have v4: "clamp (Math_round
             (impact_blend 0
                (clamp (5 * of_nat (length (nodes (propagation r))) +
                        8 * of_nat (length (edges (propagation r)))) 0 100)
                (blast_radius (count_status Down (services r))
                   (count_status Degraded (services r)) (length (services r))))) 0 100 = 16"
    unfolding count_status_map st L n e by code_simp
  note f1 = Sc [unfolded c0]
  note f2 = Rc [unfolded c0]
  note f3 = Ss [unfolded ai0 v1]
  note f4 = Rs [unfolded ai0 v2]
  note f5 = Si [unfolded aj0 v3]
  note f6 = Ri [unfolded aj0 v4]
  from S r f1 f2 f3 f4 f5 f6 show ?thesis
    by (intro exI [of _ S] exI [of _ r] conjI)
qed

section \<open>Properties of the extraction of the JSON\<close>

lemma indexOf_append_None2:
  "indexOf (xs @ ys) pat = None \<Longrightarrow> indexOf ys pat = None"
  by (induction xs) (auto split: if_splits)

lemma indexOf_trim_None:
  assumes "indexOf s pat = None"
  shows "indexOf (trim s) pat = None"
proof -
  let ?d = "dropWhile is_space s"
  have "s = takeWhile is_space s @ ?d" by simp
  with assms have "indexOf (takeWhile is_space s @ ?d) pat = None" by simp
  then have d: "indexOf ?d pat = None" by (rule indexOf_append_None2)
  have "rev ?d = takeWhile is_space (rev ?d) @ dropWhile is_space (rev ?d)" by simp
  then have "?d = rev (dropWhile is_space (rev ?d)) @ rev (takeWhile is_space (rev ?d))"
    by (metis rev_append rev_rev_ident)
  with d have "indexOf (rev (dropWhile is_space (rev ?d)) @ rev (takeWhile is_space (rev ?d))) pat = None"
    by simp
  then show ?thesis unfolding trim_def by (rule indexOf_append_None)
qed

lemma remove_all_fence_free_aux:
  "indexOf (remove_all id ''```'' s) ''```'' = None \<and>
   (\<not> prefix ''``'' s \<longrightarrow> \<not> prefix ''``'' (remove_all id ''```'' s)) \<and>
   (\<not> prefix ''`'' s \<longrightarrow> \<not> prefix ''`'' (remove_all id ''```'' s))"
proof (induction s rule: length_induct)
  case (1 s)
  show ?case
  proof (cases s)
    case Nil
    then show ?thesis by simp
  next
    case (Cons c cs)
    show ?thesis
    proof (cases "prefix ''```'' (c # cs)")
      case True
      then obtain r where r: "c # cs = ''```'' @ r" by (auto simp: prefix_def)
      then have "length r < length s" using Cons by simp
      with 1 have a: "indexOf (remove_all id ''```'' r) ''```'' = None" by blast
      have e: "remove_all id ''```'' s = remove_all id ''```'' r"
        using Cons True r by simp
      have b: "prefix ''``'' s" "prefix ''`'' s" using Cons r by auto
      from a have "indexOf (remove_all id ''```'' s) ''```'' = None"
        by (simp only: e)
      with b show ?thesis by blast
    next
      case False
      have "length cs < length s" using Cons by simp
      with 1 have IH: "indexOf (remove_all id ''```'' cs) ''```'' = None"
        "\<not> prefix ''``'' cs \<longrightarrow> \<not> prefix ''``'' (remove_all id ''```'' cs)"
        "\<not> prefix ''`'' cs \<longrightarrow> \<not> prefix ''`'' (remove_all id ''```'' cs)"
        by blast+
      have eq: "remove_all id ''```'' s = c # remove_all id ''```'' cs"
        unfolding Cons by (rule trans [OF remove_all.simps(2) if_not_P]) (use False in simp)
      show ?thesis
        unfolding eq using IH False Cons by auto
    qed
  qed
qed

lemma cleaned_fence_free:
  "indexOf (trim (remove_all id ''```'' s)) ''```'' = None"
  by (rule indexOf_trim_None) (rule remove_all_fence_free_aux [THEN conjunct1])

lemma trim_nonempty: "trim s \<noteq> [] \<Longrightarrow> s \<noteq> []"
  by (auto simp: trim_def)

text \<open>
  C8.  The text that \<open>safeJSONParse\<close> parses comes from the model text with the fence
  markers removed and the white space trimmed: it holds no fence marker, and when its
  first \<open>{\<close> comes before its last \<open>}\<close> the substring from the one to the other is what is
  parsed.  When the parse fails, the route answers with an error, whatever the request,
  and never with a report; on a request with logs the error is the status 500 with the
  message \<open>AI returned invalid JSON\<close>.
\<close>

theorem C8_parse_failure_is_typed_error:
  assumes "cleaned = trim (remove_all id ''```'' (remove_all toLowerCase_char ''```json'' txt))"
  shows "indexOf cleaned ''```'' = None \<and>
    (indexOf cleaned ''{'' = Some i \<and> lastIndexOf cleaned ''}'' = Some j \<and> i < j \<longrightarrow>
       safeJSONParse B txt = JSON_parse B (slice cleaned i (j + 1))) \<and>
    (safeJSONParse B txt = None \<longrightarrow>
       (\<exists>status msg. POST_analyze B body ctx (Inr txt) = ErrorResponse status msg) \<and>
       (get_opt b ''logs'' = JStr logs \<and> trim logs \<noteq> [] \<longrightarrow>
          POST_analyze B (Inr b) ctx (Inr txt) = ErrorResponse 500 ''AI returned invalid JSON''))"
proof (intro conjI impI)
  show "indexOf cleaned ''```'' = None"
    unfolding assms by (rule cleaned_fence_free)
next
  assume "indexOf cleaned ''{'' = Some i \<and> lastIndexOf cleaned ''}'' = Some j \<and> i < j"
  then show "safeJSONParse B txt = JSON_parse B (slice cleaned i (j + 1))"
    unfolding safeJSONParse_def json_candidate_def assms [symmetric] by (simp add: Let_def)
next
  assume "safeJSONParse B txt = None"
  then show "\<exists>status msg. POST_analyze B body ctx (Inr txt) = ErrorResponse status msg"
    by (cases body) (simp_all add: POST_analyze_def Let_def)
next
  assume n: "safeJSONParse B txt = None" and "get_opt b ''logs'' = JStr logs \<and> trim logs \<noteq> []"
  then have l: "get_opt b ''logs'' = JStr logs" "trim logs \<noteq> []" "logs \<noteq> []"
    by (auto dest: trim_nonempty)
  show "POST_analyze B (Inr b) ctx (Inr txt) = ErrorResponse 500 ''AI returned invalid JSON''"
    by (simp add: POST_analyze_def Let_def l n truthy_def isString_def toStringSafe_def)
qed


theorem C8_parse_failure_is_typed_error_witness:
  "''{oops}'' = trim (remove_all id ''```''
                   (remove_all toLowerCase_char ''```json''
                      (''```JSON'' @ [CHR 0x0A] @ ''{oops}'' @ [CHR 0x0A] @ ''```''))) \<and>
   indexOf ''{oops}'' ''```'' = None \<and>
   indexOf ''{oops}'' ''{'' = Some 0 \<and> lastIndexOf ''{oops}'' ''}'' = Some 5 \<and>
   safeJSONParse sample_builtins (''```JSON'' @ [CHR 0x0A] @ ''{oops}'' @ [CHR 0x0A] @ ''```'') =
     JSON_parse sample_builtins (slice ''{oops}'' 0 (5 + 1)) \<and>
   safeJSONParse sample_builtins (''```JSON'' @ [CHR 0x0A] @ ''{oops}'' @ [CHR 0x0A] @ ''```'') =
     None \<and>
   POST_analyze sample_builtins (Inr (JObj [(''logs'', JStr ''db down'')])) []
     (Inr (''```JSON'' @ [CHR 0x0A] @ ''{oops}'' @ [CHR 0x0A] @ ''```'')) =
     ErrorResponse 500 ''AI returned invalid JSON''"
proof -
  let ?txt = "''```JSON'' @ [CHR 0x0A] @ ''{oops}'' @ [CHR 0x0A] @ ''```''"
  have h0: "''{oops}'' = trim (remove_all id ''```'' (remove_all toLowerCase_char ''```json'' ?txt))"
    by code_simp
  have h1: "indexOf ''{oops}'' ''{'' = Some 0 \<and> lastIndexOf ''{oops}'' ''}'' = Some 5 \<and>
            (0 :: nat) < 5"
    by code_simp
  have h2: "safeJSONParse sample_builtins ?txt = None"
    by code_simp
  have h3: "get_opt (JObj [(''logs'', JStr ''db down'')]) ''logs'' = JStr ''db down'' \<and>
            trim ''db down'' \<noteq> []"
    by code_simp
  note T = C8_parse_failure_is_typed_error
             [OF h0, where B = sample_builtins and i = 0 and j = 5 and ctx = "[]"
                and b = "JObj [(''logs'', JStr ''db down'')]" and logs = "''db down''"]
  note T1 = T [THEN conjunct1]
  note T2 = T [THEN conjunct2, THEN conjunct1, rule_format, OF h1]
  note T3 = T [THEN conjunct2, THEN conjunct2, rule_format, OF h2, THEN conjunct2,
               rule_format, OF h3]
  from h0 T1 h1 [THEN conjunct1] h1 [THEN conjunct2, THEN conjunct1] T2 h2 T3
  show ?thesis by (intro conjI)
qed

end
